theory Spec2Isabelle
  imports Main "HOL-Library.Word"
begin

section \<open>Python values\<close>

text \<open>
  The module \<^verbatim>\<open>API_db_op.py\<close> handles values that come out of \<^verbatim>\<open>json.loads\<close> and
  out of the database driver: \<^verbatim>\<open>None\<close>, booleans, integers, floats, strings, lists and
  dictionaries keyed by strings. A float is kept as its IEEE-754 binary64 bit pattern: the
  module only copies floats and tests their truth value, it never computes with them. A
  dictionary is an association list in insertion order; its keys are distinct, as the keys of
  a Python dictionary are, and a key is looked up with \<^const>\<open>map_of\<close>.
\<close>

datatype pyval =
    PNone
  | PBool bool
  | PInt int
  | PFloat "64 word"
  | PStr string
  | PList "pyval list"
  | PDict "(string \<times> pyval) list"

text \<open>The exceptions that leave a function of the module uncaught (none of them is a
  \<^verbatim>\<open>sqlite3.Error\<close>). \<open>OverflowError\<close> is what the database driver raises for an integer
  beyond 64 bits; \<open>ProviderError\<close> stands for whatever the provider client or
  \<^verbatim>\<open>json.loads\<close> raises.\<close>

datatype exn = KeyError string | TypeError | AttributeError | OverflowError | ProviderError

text \<open>Sequencing: the first failure ends the computation.\<close>

definition and_then :: "'e + 'a \<Rightarrow> ('a \<Rightarrow> 'e + 'b) \<Rightarrow> 'e + 'b" where
  "and_then r f = (case r of Inl e \<Rightarrow> Inl e | Inr v \<Rightarrow> f v)"

text \<open>Truth value of a Python object, as \<^verbatim>\<open>if x\<close> tests it. A float is false when it is
  \<open>+0.0\<close> or \<open>-0.0\<close>, that is when all bits but the sign bit are zero.\<close>

fun truthy :: "pyval \<Rightarrow> bool" where
  "truthy PNone = False"
| "truthy (PBool b) = b"
| "truthy (PInt i) = (i \<noteq> 0)"
| "truthy (PFloat w) = (take_bit 63 w \<noteq> 0)"
| "truthy (PStr s) = (s \<noteq> [])"
| "truthy (PList xs) = (xs \<noteq> [])"
| "truthy (PDict kvs) = (kvs \<noteq> [])"

text \<open>\<^verbatim>\<open>x[k]\<close> with a string key \<open>k\<close>: a dictionary raises \<^verbatim>\<open>KeyError\<close> on a missing
  key, every other value raises \<^verbatim>\<open>TypeError\<close>.\<close>

fun py_getitem :: "pyval \<Rightarrow> string \<Rightarrow> exn + pyval" where
  "py_getitem (PDict kvs) k = (case map_of kvs k of None \<Rightarrow> Inl (KeyError k) | Some v \<Rightarrow> Inr v)"
| "py_getitem _ k = Inl TypeError"

text \<open>\<^verbatim>\<open>x.get(k)\<close>: the value or \<^verbatim>\<open>None\<close> on a dictionary, \<^verbatim>\<open>AttributeError\<close> on every
  other value.\<close>

fun py_get :: "pyval \<Rightarrow> string \<Rightarrow> exn + pyval" where
  "py_get (PDict kvs) k = Inr (case map_of kvs k of None \<Rightarrow> PNone | Some v \<Rightarrow> v)"
| "py_get _ k = Inl AttributeError"

text \<open>\<^verbatim>\<open>for x in v\<close>: a list yields its elements, a dictionary its keys, a string its
  characters; the other values are not iterable.\<close>

fun py_iter :: "pyval \<Rightarrow> exn + pyval list" where
  "py_iter (PList xs) = Inr xs"
| "py_iter (PDict kvs) = Inr (map (\<lambda>kv. PStr (fst kv)) kvs)"
| "py_iter (PStr s) = Inr (map (\<lambda>c. PStr [c]) s)"
| "py_iter _ = Inl TypeError"

text \<open>Decimal rendering of an integer, as \<^verbatim>\<open>"{}".format(n)\<close> gives it.\<close>

fun str_nat :: "nat \<Rightarrow> string" where
  "str_nat n = (if n < 10 then [char_of (48 + n)]
                else str_nat (n div 10) @ [char_of (48 + n mod 10)])"

declare str_nat.simps [simp del]

definition str_int :: "int \<Rightarrow> string" where
  "str_int i = (if i < 0 then CHR ''-'' # str_nat (nat (- i)) else str_nat (nat i))"

section \<open>The provider client\<close>

text \<open>
  \<^verbatim>\<open>core_instance\<close>, \<^verbatim>\<open>data_instance\<close> and \<^verbatim>\<open>access_token\<close> are module-level objects built
  from the module \<^verbatim>\<open>optimized_API\<close>, which is not part of the file. They are a parameter
  of the model. Every call of the client in the file is wrapped in \<^verbatim>\<open>json.loads\<close>, so each
  capability is taken together with the parse of its response: it yields the parsed value,
  or the exception that the call or the parse raised.
\<close>

record provider =
  access_token :: pyval
  create_user_by_dict :: "pyval \<Rightarrow> pyval \<Rightarrow> exn + pyval"
  create_auth_link :: "pyval \<Rightarrow> pyval \<Rightarrow> exn + pyval"
  get_transaction_list :: "pyval \<Rightarrow> pyval \<Rightarrow> pyval \<Rightarrow> pyval \<Rightarrow> exn + pyval"

text \<open>What a function does outside the database: the calls of the provider client, with
  their arguments, and the launch of the web browser, in the order they happen.\<close>

datatype effect =
    Call_create_user_by_dict pyval pyval
  | Call_create_auth_link pyval pyval
  | Call_get_transaction_list pyval pyval pyval pyval
  | Webbrowser_open pyval

section \<open>The database\<close>

text \<open>
  The store is the relational schema that \<^verbatim>\<open>init_dolfin_db\<close> declares. A table is the
  list of its rows in insertion order, or \<open>None\<close> while it has not been created (a statement
  on it then fails with \<^verbatim>\<open>no such table\<close>). The model keeps the primary key of
  \<^verbatim>\<open>transactions\<close>, the foreign key of \<^verbatim>\<open>trans_u_id\<close> with its cascade, the
  \<^verbatim>\<open>AUTOINCREMENT\<close> counter of \<^verbatim>\<open>users\<close>, and the transaction that
  \<^verbatim>\<open>with sqlite3.connect(...) as conn\<close> commits on a normal exit and rolls back on an
  exception. A stored value is written as the Python value that reading the column gives
  back: \<^verbatim>\<open>None\<close> for \<^verbatim>\<open>NULL\<close>, an \<^verbatim>\<open>int\<close> for an \<^verbatim>\<open>INTEGER\<close>, a \<^verbatim>\<open>float\<close> for a
  \<^verbatim>\<open>REAL\<close>, a \<^verbatim>\<open>str\<close> for a \<^verbatim>\<open>TEXT\<close>. What the driver makes of a parameter and
  what the declared type of a column makes of a value are modelled below. A user id is an
  integer, as every \<^verbatim>\<open>u_id\<close> of the store is. Failures of the file system are outside
  the model. The columns \<^verbatim>\<open>id\<close>, \<^verbatim>\<open>type\<close> and \<^verbatim>\<open>class\<close> carry the suffix
  \<open>_col\<close>.
\<close>

record user_row =
  u_id :: int
  email :: pyval
  mobile :: pyval
  first_name :: pyval
  middle_name :: pyval
  last_name :: pyval
  password :: pyval
  basiq_id :: pyval

record transaction_row =
  id_col :: pyval
  type_col :: pyval
  status :: pyval
  description :: pyval
  amount :: pyval
  account :: pyval
  balance :: pyval
  direction :: pyval
  class_col :: pyval
  institution :: pyval
  postDate :: pyval
  subClass_title :: pyval
  subClass_code :: pyval
  trans_u_id :: int

record db =
  users :: "user_row list option"
  users_seq :: int
  transactions :: "transaction_row list option"

text \<open>The \<^verbatim>\<open>sqlite3.Error\<close>s of the model. \<open>Binding_unsupported n t\<close> is the
  \<^verbatim>\<open>sqlite3.ProgrammingError\<close> of the driver for parameter \<open>n\<close> of a type \<open>t\<close> it cannot
  store; its message is worded as Python 3.11 words it.\<close>

datatype sqlite_error =
    No_such_table string
  | Unique_failed string
  | Foreign_key_failed
  | Database_full
  | Binding_unsupported nat string

fun str_sqlite_error :: "sqlite_error \<Rightarrow> string" where
  "str_sqlite_error (No_such_table t) = ''no such table: '' @ t"
| "str_sqlite_error (Unique_failed c) = ''UNIQUE constraint failed: '' @ c"
| "str_sqlite_error Foreign_key_failed = ''FOREIGN KEY constraint failed''"
| "str_sqlite_error Database_full = ''database or disk is full''"
| "str_sqlite_error (Binding_unsupported n t) =
     ''Error binding parameter '' @ str_nat n @ '': type '' @ [CHR 0x27] @ t @ [CHR 0x27]
     @ '' is not supported''"

text \<open>Why a statement did not run to its end: an exception that is no
  \<^verbatim>\<open>sqlite3.Error\<close>, or one that is.\<close>

datatype failure = Raised exn | Sqlite sqlite_error

text \<open>The value every \<^verbatim>\<open>except sqlite3.Error as e\<close> branch returns.\<close>

definition error_occurred :: "sqlite_error \<Rightarrow> pyval" where
  "error_occurred e = PStr (''An error occurred: '' @ str_sqlite_error e)"

definition no_user_found :: pyval where
  "no_user_found = PStr ''No user found with the given ID.''"

text \<open>A database file that has just been created: no table yet.\<close>

definition empty_db :: db where
  "empty_db = \<lparr>users = None, users_seq = 0, transactions = None\<rparr>"

subsection \<open>Parameters and column types\<close>

text \<open>
  What the driver binds for a parameter: \<^verbatim>\<open>None\<close> as \<^verbatim>\<open>NULL\<close>, a boolean as the integer
  1 or 0, an integer as it is when it fits 64 signed bits (\<^verbatim>\<open>OverflowError\<close> otherwise),
  a float as it is (a NaN as \<^verbatim>\<open>NULL\<close>), a string as it is; a list or a dictionary is
  refused with an \<^verbatim>\<open>sqlite3.Error\<close>. \<open>n\<close> is the position of the parameter in the
  statement, counted from 1.
\<close>

definition is_nan :: "64 word \<Rightarrow> bool" where
  "is_nan w = (0x7FF0000000000000 < take_bit 63 w)"

fun bind_parameter :: "nat \<Rightarrow> pyval \<Rightarrow> failure + pyval" where
  "bind_parameter n PNone = Inr PNone"
| "bind_parameter n (PBool b) = Inr (PInt (if b then 1 else 0))"
| "bind_parameter n (PInt i) =
     (if - 9223372036854775808 \<le> i \<and> i \<le> 9223372036854775807 then Inr (PInt i)
      else Inl (Raised OverflowError))"
| "bind_parameter n (PFloat w) = Inr (if is_nan w then PNone else PFloat w)"
| "bind_parameter n (PStr s) = Inr (PStr s)"
| "bind_parameter n (PList xs) = Inl (Sqlite (Binding_unsupported n ''list''))"
| "bind_parameter n (PDict kvs) = Inl (Sqlite (Binding_unsupported n ''dict''))"

text \<open>
  The declared type of a column gives it an affinity: \<^verbatim>\<open>VARCHAR\<close> and \<^verbatim>\<open>TEXT\<close> give
  \<open>TEXT\<close>, \<^verbatim>\<open>REAL\<close> gives \<open>REAL\<close>, \<^verbatim>\<open>TIMESTAMP\<close> gives \<open>NUMERIC\<close>. The conversions
  that read or write a floating-point number (a number out of a numeric string, a
  \<^verbatim>\<open>REAL\<close> out of an integer, a string out of a \<^verbatim>\<open>REAL\<close>) are SQLite's own and are a
  parameter of the model.
\<close>

datatype affinity = Text_affinity | Numeric_affinity | Real_affinity

record sqlite =
  text_of_real :: "64 word \<Rightarrow> string"
  numeric_affinity :: "pyval \<Rightarrow> pyval"
  real_affinity :: "pyval \<Rightarrow> pyval"

text \<open>The value a column of the given affinity stores for a bound value. \<^verbatim>\<open>NULL\<close> is
  stored as it is under every affinity. A \<open>TEXT\<close> column stores a string as it is, an
  integer as its decimal text and a \<^verbatim>\<open>REAL\<close> as its text. A \<open>NUMERIC\<close> column stores
  an integer as it is.\<close>

fun column_value :: "sqlite \<Rightarrow> affinity \<Rightarrow> pyval \<Rightarrow> pyval" where
  "column_value eng aff PNone = PNone"
| "column_value eng Text_affinity (PInt i) = PStr (str_int i)"
| "column_value eng Text_affinity (PFloat w) = PStr (text_of_real eng w)"
| "column_value eng Text_affinity v = v"
| "column_value eng Numeric_affinity (PInt i) = PInt i"
| "column_value eng Numeric_affinity v = numeric_affinity eng v"
| "column_value eng Real_affinity v = real_affinity eng v"

subsection \<open>init_dolfin_db\<close>

text \<open>Both statements are \<^verbatim>\<open>CREATE TABLE IF NOT EXISTS\<close>: an existing table is left as
  it is.\<close>

definition init_dolfin_db :: "db \<Rightarrow> db \<times> pyval" where
  "init_dolfin_db d =
     (let d1 = (case users d of None \<Rightarrow> d\<lparr>users := Some [], users_seq := 0\<rparr> | Some us \<Rightarrow> d);
          d2 = (case transactions d1 of None \<Rightarrow> d1\<lparr>transactions := Some []\<rparr> | Some ts \<Rightarrow> d1)
      in (d2, PStr ''managed to init dolfin_db.''))"

subsection \<open>register_user\<close>

text \<open>The \<^verbatim>\<open>INSERT\<close> names six columns, all \<^verbatim>\<open>VARCHAR\<close>: \<^verbatim>\<open>basiq_id\<close> takes its
  default \<^verbatim>\<open>NULL\<close> and \<^verbatim>\<open>u_id\<close> the next \<^verbatim>\<open>AUTOINCREMENT\<close> value, one more than
  the largest id the table has ever held; when that id was the largest 64-bit integer the
  insert fails. The statement is prepared, then its parameters are bound in order, then it
  runs. An exception that is no \<^verbatim>\<open>sqlite3.Error\<close> leaves the function.\<close>

definition max_u_id :: "user_row list \<Rightarrow> int" where
  "max_u_id us = fold (\<lambda>u m. max (u_id u) m) us 0"

definition insert_user ::
  "sqlite \<Rightarrow> db \<Rightarrow> pyval \<Rightarrow> pyval \<Rightarrow> pyval \<Rightarrow> pyval \<Rightarrow> pyval \<Rightarrow> pyval \<Rightarrow> failure + db" where
  "insert_user eng d email' mobile' first_name' middle_name' last_name' password' =
     (case users d of
        None \<Rightarrow> Inl (Sqlite (No_such_table ''users''))
      | Some us \<Rightarrow>
          and_then (bind_parameter 1 email') (\<lambda>b_email.
          and_then (bind_parameter 2 mobile') (\<lambda>b_mobile.
          and_then (bind_parameter 3 first_name') (\<lambda>b_first_name.
          and_then (bind_parameter 4 middle_name') (\<lambda>b_middle_name.
          and_then (bind_parameter 5 last_name') (\<lambda>b_last_name.
          and_then (bind_parameter 6 password') (\<lambda>b_password.
          (let new_id = max (users_seq d) (max_u_id us) + 1 in
           if new_id > 9223372036854775807 then Inl (Sqlite Database_full)
           else Inr (d\<lparr>users := Some (us @
                        [\<lparr>u_id = new_id,
                          email = column_value eng Text_affinity b_email,
                          mobile = column_value eng Text_affinity b_mobile,
                          first_name = column_value eng Text_affinity b_first_name,
                          middle_name = column_value eng Text_affinity b_middle_name,
                          last_name = column_value eng Text_affinity b_last_name,
                          password = column_value eng Text_affinity b_password,
                          basiq_id = PNone\<rparr>]),
                      users_seq := new_id\<rparr>)))))))))"

definition register_user ::
  "sqlite \<Rightarrow> db \<Rightarrow> pyval \<Rightarrow> pyval \<Rightarrow> pyval \<Rightarrow> pyval \<Rightarrow> pyval \<Rightarrow> pyval
   \<Rightarrow> db \<times> (exn + pyval)" where
  "register_user eng d email' mobile' first_name' middle_name' last_name' password' =
     (case insert_user eng d email' mobile' first_name' middle_name' last_name' password' of
        Inr d' \<Rightarrow>
          (d', Inr (PStr (''User inserted successfully into '' @ [CHR 0x27] @ ''users''
                          @ [CHR 0x27] @ '' table.'')))
      | Inl (Sqlite e) \<Rightarrow> (d, Inr (error_occurred e))
      | Inl (Raised e) \<Rightarrow> (d, Inl e))"

subsection \<open>get_basiq_id and get_user_info\<close>

text \<open>\<^verbatim>\<open>fetchone()\<close> gives the first row with the id, or \<^verbatim>\<open>None\<close>. A row is a
  non-empty tuple, so \<^verbatim>\<open>if result\<close> holds for every row, whatever its columns hold.\<close>

definition get_basiq_id :: "db \<Rightarrow> int \<Rightarrow> pyval" where
  "get_basiq_id d user_id =
     (case users d of
        None \<Rightarrow> error_occurred (No_such_table ''users'')
      | Some us \<Rightarrow>
          (case find (\<lambda>u. u_id u = user_id) us of
             Some result \<Rightarrow> basiq_id result
           | None \<Rightarrow> no_user_found))"

definition get_user_info :: "db \<Rightarrow> int \<Rightarrow> pyval" where
  "get_user_info d user_id =
     (case users d of
        None \<Rightarrow> error_occurred (No_such_table ''users'')
      | Some us \<Rightarrow>
          (case find (\<lambda>u. u_id u = user_id) us of
             Some result \<Rightarrow>
               PDict [(''email'', email result), (''mobile'', mobile result),
                      (''firstName'', first_name result), (''middleName'', middle_name result),
                      (''lastName'', last_name result)]
           | None \<Rightarrow> no_user_found))"

subsection \<open>register_basiq_id\<close>

text \<open>The provider is called first, with whatever \<^verbatim>\<open>get_user_info\<close> returned. The
  \<^verbatim>\<open>except\<close> clause catches \<^verbatim>\<open>sqlite3.Error\<close> only, so an exception of the call, of
  the parse or of \<^verbatim>\<open>.get\<close> leaves the function. The \<^verbatim>\<open>UPDATE\<close> binds the new id
  as its first parameter and then touches the rows with the user id, where the
  \<^verbatim>\<open>VARCHAR\<close> column stores it; with no such row the function returns before
  \<^verbatim>\<open>commit\<close>.\<close>

definition register_basiq_id ::
  "sqlite \<Rightarrow> provider \<Rightarrow> db \<Rightarrow> int \<Rightarrow> db \<times> effect list \<times> (exn + pyval)" where
  "register_basiq_id eng p d user_id =
     (let info = get_user_info d user_id;
          call = Call_create_user_by_dict info (access_token p)
      in case and_then (create_user_by_dict p info (access_token p)) (\<lambda>resp. py_get resp ''id'') of
           Inl e \<Rightarrow> (d, [call], Inl e)
         | Inr new_basiq_id \<Rightarrow>
             (case users d of
                None \<Rightarrow> (d, [call], Inr (error_occurred (No_such_table ''users'')))
              | Some us \<Rightarrow>
                  (case bind_parameter 1 new_basiq_id of
                     Inl (Sqlite e) \<Rightarrow> (d, [call], Inr (error_occurred e))
                   | Inl (Raised e) \<Rightarrow> (d, [call], Inl e)
                   | Inr b \<Rightarrow>
                       if \<not> list_ex (\<lambda>u. u_id u = user_id) us
                       then (d, [call], Inr no_user_found)
                       else (d\<lparr>users := Some (map (\<lambda>u. if u_id u = user_id
                                 then u\<lparr>basiq_id := column_value eng Text_affinity b\<rparr>
                                 else u) us)\<rparr>,
                             [call],
                             Inr (PStr (''basiq_id updated successfully for user ID ''
                                        @ str_int user_id))))))"

subsection \<open>link_bank_account\<close>

text \<open>The function runs one \<^verbatim>\<open>SELECT\<close>; for a row it calls the provider with the
  column as it is, opens the browser on the link and falls off its end, returning
  \<^verbatim>\<open>None\<close>.\<close>

definition link_bank_account :: "provider \<Rightarrow> db \<Rightarrow> int \<Rightarrow> db \<times> effect list \<times> (exn + pyval)" where
  "link_bank_account p d user_id =
     (case users d of
        None \<Rightarrow> (d, [], Inr (error_occurred (No_such_table ''users'')))
      | Some us \<Rightarrow>
          (case find (\<lambda>u. u_id u = user_id) us of
             None \<Rightarrow> (d, [], Inr no_user_found)
           | Some result \<Rightarrow>
               (let call = Call_create_auth_link (basiq_id result) (access_token p)
                in case and_then (create_auth_link p (basiq_id result) (access_token p))
                          (\<lambda>resp. and_then (py_get resp ''links'')
                          (\<lambda>links. py_get links ''public'')) of
                     Inl e \<Rightarrow> (d, [call], Inl e)
                   | Inr link \<Rightarrow> (d, [call, Webbrowser_open link], Inr PNone))))"

subsection \<open>request_transactions_df\<close>

text \<open>The body of the \<^verbatim>\<open>for\<close> loop: the dictionary display is evaluated entry by entry,
  in the order written, and the first failing subscript raises. Each of the two conditional
  expressions tests \<^verbatim>\<open>transaction.get('subClass')\<close> first.\<close>

definition flatten_transaction :: "pyval \<Rightarrow> exn + (string \<times> pyval) list" where
  "flatten_transaction transaction =
     and_then (py_getitem transaction ''type'') (\<lambda>v_type.
     and_then (py_getitem transaction ''id'') (\<lambda>v_id.
     and_then (py_getitem transaction ''status'') (\<lambda>v_status.
     and_then (py_getitem transaction ''description'') (\<lambda>v_description.
     and_then (py_getitem transaction ''amount'') (\<lambda>v_amount.
     and_then (py_getitem transaction ''account'') (\<lambda>v_account.
     and_then (py_getitem transaction ''balance'') (\<lambda>v_balance.
     and_then (py_getitem transaction ''direction'') (\<lambda>v_direction.
     and_then (py_getitem transaction ''class'') (\<lambda>v_class.
     and_then (py_getitem transaction ''institution'') (\<lambda>v_institution.
     and_then (py_getitem transaction ''postDate'') (\<lambda>v_postDate.
     and_then (py_get transaction ''subClass'') (\<lambda>c1.
     and_then (if truthy c1
               then and_then (py_getitem transaction ''subClass'') (\<lambda>s. py_getitem s ''title'')
               else Inr PNone) (\<lambda>v_title.
     and_then (py_get transaction ''subClass'') (\<lambda>c2.
     and_then (if truthy c2
               then and_then (py_getitem transaction ''subClass'') (\<lambda>s. py_getitem s ''code'')
               else Inr PNone) (\<lambda>v_code.
     Inr [(''type'', v_type), (''id'', v_id), (''status'', v_status),
          (''description'', v_description), (''amount'', v_amount),
          (''account'', v_account), (''balance'', v_balance),
          (''direction'', v_direction), (''class'', v_class),
          (''institution'', v_institution), (''postDate'', v_postDate),
          (''subClass_title'', v_title), (''subClass_code'', v_code)])))))))))))))))"

fun flatten_all :: "pyval list \<Rightarrow> exn + (string \<times> pyval) list list" where
  "flatten_all [] = Inr []"
| "flatten_all (transaction # rest) =
     and_then (flatten_transaction transaction) (\<lambda>row.
     and_then (flatten_all rest) (\<lambda>rows. Inr (row # rows)))"

text \<open>\<^verbatim>\<open>pd.DataFrame(transactions)\<close> holds the rows that the loop has built. A data
  frame is taken as the ordered sequence of its rows, as the specification takes it, a row
  being the association of column names to values; the column typing of pandas is not part
  of the model. The result of \<^verbatim>\<open>get_basiq_id\<close> goes to the provider as it is.\<close>

definition request_transactions_df ::
  "provider \<Rightarrow> db \<Rightarrow> int \<Rightarrow> pyval \<Rightarrow> pyval \<Rightarrow> effect list \<times> (exn + (string \<times> pyval) list list)" where
  "request_transactions_df p d user_id limit_para filter_para =
     (let b = get_basiq_id d user_id
      in ([Call_get_transaction_list b limit_para filter_para (access_token p)],
          and_then (get_transaction_list p b limit_para filter_para (access_token p)) (\<lambda>tran_data.
          and_then (py_getitem tran_data ''data'') (\<lambda>transaction_list.
          and_then (py_iter transaction_list) flatten_all))))"

subsection \<open>cache_transactions\<close>

text \<open>\<^verbatim>\<open>row[k]\<close> on a row of the data frame.\<close>

definition row_getitem :: "(string \<times> pyval) list \<Rightarrow> string \<Rightarrow> exn + pyval" where
  "row_getitem row k = (case map_of row k of None \<Rightarrow> Inl (KeyError k) | Some v \<Rightarrow> Inr v)"

text \<open>The parameter tuple of the \<^verbatim>\<open>INSERT\<close>, in the order of its columns.\<close>

definition insert_parameters :: "(string \<times> pyval) list \<Rightarrow> int \<Rightarrow> exn + transaction_row" where
  "insert_parameters row user_id =
     and_then (row_getitem row ''id'') (\<lambda>v_id.
     and_then (row_getitem row ''type'') (\<lambda>v_type.
     and_then (row_getitem row ''status'') (\<lambda>v_status.
     and_then (row_getitem row ''description'') (\<lambda>v_description.
     and_then (row_getitem row ''amount'') (\<lambda>v_amount.
     and_then (row_getitem row ''account'') (\<lambda>v_account.
     and_then (row_getitem row ''balance'') (\<lambda>v_balance.
     and_then (row_getitem row ''direction'') (\<lambda>v_direction.
     and_then (row_getitem row ''class'') (\<lambda>v_class.
     and_then (row_getitem row ''institution'') (\<lambda>v_institution.
     and_then (row_getitem row ''postDate'') (\<lambda>v_postDate.
     and_then (row_getitem row ''subClass_title'') (\<lambda>v_title.
     and_then (row_getitem row ''subClass_code'') (\<lambda>v_code.
     Inr \<lparr>id_col = v_id, type_col = v_type, status = v_status,
          description = v_description, amount = v_amount, account = v_account,
          balance = v_balance, direction = v_direction, class_col = v_class,
          institution = v_institution, postDate = v_postDate,
          subClass_title = v_title, subClass_code = v_code,
          trans_u_id = user_id\<rparr>)))))))))))))"

text \<open>The values the driver binds for the thirteen cells of the parameter tuple, in the
  order of the tuple; the first parameter that cannot be bound fails. The user id, the
  fourteenth parameter, is an id of the store.\<close>

definition bind_parameters :: "transaction_row \<Rightarrow> failure + transaction_row" where
  "bind_parameters r =
     and_then (bind_parameter 1 (id_col r)) (\<lambda>b_id.
     and_then (bind_parameter 2 (type_col r)) (\<lambda>b_type.
     and_then (bind_parameter 3 (status r)) (\<lambda>b_status.
     and_then (bind_parameter 4 (description r)) (\<lambda>b_description.
     and_then (bind_parameter 5 (amount r)) (\<lambda>b_amount.
     and_then (bind_parameter 6 (account r)) (\<lambda>b_account.
     and_then (bind_parameter 7 (balance r)) (\<lambda>b_balance.
     and_then (bind_parameter 8 (direction r)) (\<lambda>b_direction.
     and_then (bind_parameter 9 (class_col r)) (\<lambda>b_class.
     and_then (bind_parameter 10 (institution r)) (\<lambda>b_institution.
     and_then (bind_parameter 11 (postDate r)) (\<lambda>b_postDate.
     and_then (bind_parameter 12 (subClass_title r)) (\<lambda>b_title.
     and_then (bind_parameter 13 (subClass_code r)) (\<lambda>b_code.
     Inr \<lparr>id_col = b_id, type_col = b_type, status = b_status,
          description = b_description, amount = b_amount, account = b_account,
          balance = b_balance, direction = b_direction, class_col = b_class,
          institution = b_institution, postDate = b_postDate,
          subClass_title = b_title, subClass_code = b_code,
          trans_u_id = trans_u_id r\<rparr>)))))))))))))"

text \<open>The row the table stores for the bound values, column by column, by the types
  \<^verbatim>\<open>init_dolfin_db\<close> declares: \<^verbatim>\<open>amount\<close> and \<^verbatim>\<open>balance\<close> are \<^verbatim>\<open>REAL\<close>,
  \<^verbatim>\<open>postDate\<close> is \<^verbatim>\<open>TIMESTAMP\<close>, \<^verbatim>\<open>description\<close> is \<^verbatim>\<open>TEXT\<close> and the others are
  \<^verbatim>\<open>VARCHAR\<close>.\<close>

definition stored_row :: "sqlite \<Rightarrow> transaction_row \<Rightarrow> transaction_row" where
  "stored_row eng b =
     \<lparr>id_col = column_value eng Text_affinity (id_col b),
      type_col = column_value eng Text_affinity (type_col b),
      status = column_value eng Text_affinity (status b),
      description = column_value eng Text_affinity (description b),
      amount = column_value eng Real_affinity (amount b),
      account = column_value eng Text_affinity (account b),
      balance = column_value eng Real_affinity (balance b),
      direction = column_value eng Text_affinity (direction b),
      class_col = column_value eng Text_affinity (class_col b),
      institution = column_value eng Text_affinity (institution b),
      postDate = column_value eng Numeric_affinity (postDate b),
      subClass_title = column_value eng Text_affinity (subClass_title b),
      subClass_code = column_value eng Text_affinity (subClass_code b),
      trans_u_id = trans_u_id b\<rparr>"

text \<open>One \<^verbatim>\<open>INSERT INTO transactions\<close> on a connection with
  \<^verbatim>\<open>PRAGMA foreign_keys = ON\<close>. Preparing the statement needs both tables; then the
  parameters are bound; then the row is stored. The primary key \<^verbatim>\<open>id\<close> rejects a stored
  value that a row already holds (the column is not declared \<^verbatim>\<open>NOT NULL\<close>, and SQLite
  takes \<^verbatim>\<open>NULL\<close>s as distinct from each other); the foreign key wants a user with the
  id.\<close>

definition insert_transaction :: "sqlite \<Rightarrow> db \<Rightarrow> transaction_row \<Rightarrow> failure + db" where
  "insert_transaction eng d r =
     (case transactions d of
        None \<Rightarrow> Inl (Sqlite (No_such_table ''transactions''))
      | Some ts \<Rightarrow>
          (case users d of
             None \<Rightarrow> Inl (Sqlite (No_such_table ''main.users''))
           | Some us \<Rightarrow>
               and_then (bind_parameters r) (\<lambda>b.
               (let row = stored_row eng b in
                if id_col row \<noteq> PNone \<and> list_ex (\<lambda>t. id_col t = id_col row) ts
                then Inl (Sqlite (Unique_failed ''transactions.id''))
                else if \<not> list_ex (\<lambda>u. u_id u = trans_u_id row) us
                then Inl (Sqlite Foreign_key_failed)
                else Inr (d\<lparr>transactions := Some (ts @ [row])\<rparr>)))))"

fun insert_rows ::
  "sqlite \<Rightarrow> db \<Rightarrow> int \<Rightarrow> (string \<times> pyval) list list \<Rightarrow> failure + db" where
  "insert_rows eng d user_id [] = Inr d"
| "insert_rows eng d user_id (row # rest) =
     (case insert_parameters row user_id of
        Inl e \<Rightarrow> Inl (Raised e)
      | Inr r \<Rightarrow>
          (case insert_transaction eng d r of
             Inl e \<Rightarrow> Inl e
           | Inr d' \<Rightarrow> insert_rows eng d' user_id rest))"

text \<open>All the inserts run in the one transaction of the \<^verbatim>\<open>with\<close> block: it is
  committed when the loop ends, and rolled back when an exception leaves the block, which
  is the database as it was before the call.\<close>

definition cache_transactions ::
  "sqlite \<Rightarrow> db \<Rightarrow> int \<Rightarrow> (string \<times> pyval) list list \<Rightarrow> db \<times> (exn + pyval)" where
  "cache_transactions eng d user_id tran_data =
     (case insert_rows eng d user_id tran_data of
        Inr d' \<Rightarrow> (d', Inr (PStr ''Transactions successfully inserted.''))
      | Inl (Sqlite e) \<Rightarrow> (d, Inr (error_occurred e))
      | Inl (Raised e) \<Rightarrow> (d, Inl e))"

subsection \<open>fetch_transactions_by_user and clear_transactions\<close>

text \<open>The rows of the user, or \<open>None\<close> when the query fails and no data frame comes
  back.\<close>

definition fetch_transactions_by_user :: "db \<Rightarrow> int \<Rightarrow> transaction_row list option" where
  "fetch_transactions_by_user d user_id =
     (case transactions d of
        None \<Rightarrow> None
      | Some ts \<Rightarrow> Some (filter (\<lambda>t. trans_u_id t = user_id) ts))"

definition clear_transactions :: "db \<Rightarrow> db \<times> pyval" where
  "clear_transactions d =
     (case transactions d of
        None \<Rightarrow> (d, error_occurred (No_such_table ''transactions''))
      | Some ts \<Rightarrow> (d\<lparr>transactions := Some []\<rparr>, PStr ''Transactions table cleared successfully.''))"

section \<open>Runs of the module\<close>

text \<open>A call of one of the functions of the module, with its arguments, and the database
  it leaves behind.\<close>

datatype operation =
    Init_dolfin_db
  | Register_user pyval pyval pyval pyval pyval pyval
  | Get_basiq_id int
  | Get_user_info int
  | Register_basiq_id int
  | Link_bank_account int
  | Request_transactions_df int pyval pyval
  | Cache_transactions int "(string \<times> pyval) list list"
  | Fetch_transactions_by_user int
  | Clear_transactions

fun run :: "sqlite \<Rightarrow> provider \<Rightarrow> operation \<Rightarrow> db \<Rightarrow> db" where
  "run eng p Init_dolfin_db d = fst (init_dolfin_db d)"
| "run eng p (Register_user e m f mi l pw) d = fst (register_user eng d e m f mi l pw)"
| "run eng p (Get_basiq_id u) d = d"
| "run eng p (Get_user_info u) d = d"
| "run eng p (Register_basiq_id u) d = fst (register_basiq_id eng p d u)"
| "run eng p (Link_bank_account u) d = fst (link_bank_account p d u)"
| "run eng p (Request_transactions_df u l f) d = d"
| "run eng p (Cache_transactions u rows) d = fst (cache_transactions eng d u rows)"
| "run eng p (Fetch_transactions_by_user u) d = d"
| "run eng p Clear_transactions d = fst (clear_transactions d)"

text \<open>The rows of a table; a table that does not exist has none.\<close>

definition table_rows :: "'a list option \<Rightarrow> 'a list" where
  "table_rows t = (case t of None \<Rightarrow> [] | Some rows \<Rightarrow> rows)"

text \<open>The \<^verbatim>\<open>basiq_id\<close> column of the user with the id, if there is such a user.\<close>

definition basiq_id_of :: "db \<Rightarrow> int \<Rightarrow> pyval option" where
  "basiq_id_of d user_id =
     map_option basiq_id (find (\<lambda>u. u_id u = user_id) (table_rows (users d)))"

text \<open>The transactions a user owns.\<close>

definition owned_by :: "db \<Rightarrow> int \<Rightarrow> transaction_row list" where
  "owned_by d user_id = filter (\<lambda>t. trans_u_id t = user_id) (table_rows (transactions d))"

text \<open>Every row of \<^verbatim>\<open>transactions\<close> references a row of \<^verbatim>\<open>users\<close>.\<close>

definition referential_integrity :: "db \<Rightarrow> bool" where
  "referential_integrity d =
     list_all (\<lambda>t. list_ex (\<lambda>u. u_id u = trans_u_id t) (table_rows (users d)))
       (table_rows (transactions d))"

text \<open>Modelled from the spec: the deletion of a user. No function of
  \<^verbatim>\<open>API_db_op.py\<close> deletes from \<^verbatim>\<open>users\<close>; the file only declares, in
  \<^verbatim>\<open>init_dolfin_db\<close>, the foreign key
  \<^verbatim>\<open>trans_u_id REFERENCES users (u_id) ON DELETE CASCADE\<close>. The specification says that
  deleting the User deletes all its Transactions, with foreign-key enforcement enabled on
  the connection, as \<^verbatim>\<open>init_dolfin_db\<close> and \<^verbatim>\<open>cache_transactions\<close> enable it. The
  statement is \<^verbatim>\<open>DELETE FROM users WHERE u_id = ?\<close>; without the table it fails and
  changes nothing.\<close>

definition delete_user :: "db \<Rightarrow> int \<Rightarrow> db" where
  "delete_user d user_id =
     (case users d of
        None \<Rightarrow> d
      | Some us \<Rightarrow>
          d\<lparr>users := Some (filter (\<lambda>u. u_id u \<noteq> user_id) us),
            transactions := map_option (filter (\<lambda>t. trans_u_id t \<noteq> user_id)) (transactions d)\<rparr>)"

text \<open>The databases that calls of the module and deletions of users make out of a new
  database file.\<close>

inductive reachable :: "db \<Rightarrow> bool" where
  start: "reachable empty_db"
| call: "reachable d \<Longrightarrow> reachable (run eng p operation d)"
| deletion: "reachable d \<Longrightarrow> reachable (delete_user d user_id)"

section \<open>The normalization rule of the specification\<close>

text \<open>
  The specification states the rule in words: a provider record carries an optional nested
  \<^verbatim>\<open>subClass{title, code}\<close>; when it is absent both local fields are null, when it is
  present both are copied verbatim, and no other provider field is reinterpreted. The
  following definitions write that rule down, independently of the code, to compare the
  code with it. A record is well formed when it has the eleven plain fields and its
  \<^verbatim>\<open>subClass\<close> is missing, \<^verbatim>\<open>null\<close>, or a dictionary with \<^verbatim>\<open>title\<close> and
  \<^verbatim>\<open>code\<close>.
\<close>

definition provider_field :: "(string \<times> pyval) list \<Rightarrow> string \<Rightarrow> pyval" where
  "provider_field kvs k = (case map_of kvs k of Some v \<Rightarrow> v | None \<Rightarrow> PNone)"

definition spec_subclass :: "(string \<times> pyval) list \<Rightarrow> string \<Rightarrow> pyval" where
  "spec_subclass kvs k =
     (case map_of kvs ''subClass'' of
        Some (PDict sub) \<Rightarrow> provider_field sub k
      | _ \<Rightarrow> PNone)"

definition spec_normalized :: "(string \<times> pyval) list \<Rightarrow> (string \<times> pyval) list" where
  "spec_normalized kvs =
     [(''type'', provider_field kvs ''type''), (''id'', provider_field kvs ''id''),
      (''status'', provider_field kvs ''status''),
      (''description'', provider_field kvs ''description''),
      (''amount'', provider_field kvs ''amount''),
      (''account'', provider_field kvs ''account''),
      (''balance'', provider_field kvs ''balance''),
      (''direction'', provider_field kvs ''direction''),
      (''class'', provider_field kvs ''class''),
      (''institution'', provider_field kvs ''institution''),
      (''postDate'', provider_field kvs ''postDate''),
      (''subClass_title'', spec_subclass kvs ''title''),
      (''subClass_code'', spec_subclass kvs ''code'')]"

definition plain_fields :: "string list" where
  "plain_fields = [''type'', ''id'', ''status'', ''description'', ''amount'', ''account'',
                   ''balance'', ''direction'', ''class'', ''institution'', ''postDate'']"

definition well_formed_record :: "(string \<times> pyval) list \<Rightarrow> bool" where
  "well_formed_record kvs =
     (list_all (\<lambda>k. map_of kvs k \<noteq> None) plain_fields
      \<and> (case map_of kvs ''subClass'' of
            None \<Rightarrow> True
          | Some PNone \<Rightarrow> True
          | Some (PDict sub) \<Rightarrow> map_of sub ''title'' \<noteq> None \<and> map_of sub ''code'' \<noteq> None
          | Some _ \<Rightarrow> False))"

section \<open>A small scenario\<close>

text \<open>
  The conversions of SQLite on the values of the scenario: under \<open>REAL\<close> affinity the
  numeric strings \<^verbatim>\<open>'-4.50'\<close> and \<^verbatim>\<open>'100.00'\<close> become the floats \<open>-4.5\<close> and \<open>100.0\<close>
  (given by their bit patterns); under \<open>NUMERIC\<close> affinity the date string, which is no
  number, stays text. No other value is converted in the scenario, and what
  \<open>demo_sqlite\<close> gives for other values is of no account.
\<close>

definition demo_sqlite :: sqlite where
  "demo_sqlite =
     \<lparr>text_of_real = (\<lambda>w. []),
      numeric_affinity = (\<lambda>v. v),
      real_affinity = (\<lambda>v. if v = PStr ''-4.50'' then PFloat 0xC012000000000000
                            else if v = PStr ''100.00'' then PFloat 0x4059000000000000
                            else v)\<rparr>"

text \<open>A provider that answers every call; it has transactions for the account
  \<^verbatim>\<open>basiq-1\<close> only, two records: one with a nested \<^verbatim>\<open>subClass\<close>, one whose
  \<^verbatim>\<open>subClass\<close> is \<^verbatim>\<open>null\<close>.\<close>

definition demo_record :: "(string \<times> pyval) list" where
  "demo_record =
     [(''type'', PStr ''transaction''), (''id'', PStr ''tx-2''), (''status'', PStr ''posted''),
      (''description'', PStr ''Market''), (''amount'', PStr ''-20.00''),
      (''account'', PStr ''acc-1''), (''balance'', PStr ''80.00''),
      (''direction'', PStr ''debit''), (''class'', PStr ''payment''),
      (''institution'', PStr ''AU00000''), (''postDate'', PStr ''2023-01-02T00:00:00Z''),
      (''subClass'', PDict [(''title'', PStr ''Groceries''), (''code'', PStr ''G1'')])]"

definition demo_record_plain :: "(string \<times> pyval) list" where
  "demo_record_plain =
     [(''type'', PStr ''transaction''), (''id'', PStr ''tx-1''), (''status'', PStr ''posted''),
      (''description'', PStr ''Coffee''), (''amount'', PStr ''-4.50''),
      (''account'', PStr ''acc-1''), (''balance'', PStr ''100.00''),
      (''direction'', PStr ''debit''), (''class'', PStr ''payment''),
      (''institution'', PStr ''AU00000''), (''postDate'', PStr ''2023-01-01T00:00:00Z''),
      (''subClass'', PNone)]"

definition demo_provider :: provider where
  "demo_provider =
     \<lparr>access_token = PStr ''token'',
      create_user_by_dict = (\<lambda>info token. Inr (PDict [(''id'', PStr ''basiq-1'')])),
      create_auth_link = (\<lambda>b token.
         Inr (PDict [(''links'', PDict [(''public'', PStr ''https://connect.example/1'')])])),
      get_transaction_list = (\<lambda>b limit_para filter_para token.
         if b = PStr ''basiq-1''
         then Inr (PDict [(''data'', PList [PDict demo_record, PDict demo_record_plain])])
         else Inr (PDict [(''data'', PList [])]))\<rparr>"

text \<open>One registered user who is not linked yet; the same user once linked; a second
  user.\<close>

definition demo_user :: user_row where
  "demo_user =
     \<lparr>u_id = 1, email = PStr ''a@x.com'', mobile = PStr ''000'', first_name = PStr ''A'',
      middle_name = PStr [], last_name = PStr ''B'', password = PStr ''h'',
      basiq_id = PNone\<rparr>"

definition demo_db :: db where
  "demo_db = \<lparr>users = Some [demo_user], users_seq = 1, transactions = Some []\<rparr>"

definition demo_linked :: db where
  "demo_linked =
     \<lparr>users = Some [demo_user\<lparr>basiq_id := PStr ''basiq-1''\<rparr>], users_seq = 1,
      transactions = Some []\<rparr>"

definition demo_second_user :: user_row where
  "demo_second_user =
     \<lparr>u_id = 2, email = PStr ''c@x.com'', mobile = PStr ''111'', first_name = PStr ''C'',
      middle_name = PStr [], last_name = PStr ''D'', password = PStr ''k'',
      basiq_id = PNone\<rparr>"

definition demo_two :: db where
  "demo_two =
     \<lparr>users = Some [demo_user, demo_second_user], users_seq = 2, transactions = Some []\<rparr>"

text \<open>One row of a data frame as \<^verbatim>\<open>request_transactions_df\<close> builds them, the
  parameter tuple of its \<^verbatim>\<open>INSERT\<close> for user 1, the row the table stores for it, and
  the database after the row has been cached.\<close>

definition demo_row :: "(string \<times> pyval) list" where
  "demo_row =
     [(''type'', PStr ''transaction''), (''id'', PStr ''tx-1''), (''status'', PStr ''posted''),
      (''description'', PStr ''Coffee''), (''amount'', PStr ''-4.50''),
      (''account'', PStr ''acc-1''), (''balance'', PStr ''100.00''),
      (''direction'', PStr ''debit''), (''class'', PStr ''payment''),
      (''institution'', PStr ''AU00000''), (''postDate'', PStr ''2023-01-01T00:00:00Z''),
      (''subClass_title'', PNone), (''subClass_code'', PNone)]"

definition demo_parameters :: transaction_row where
  "demo_parameters =
     \<lparr>id_col = PStr ''tx-1'', type_col = PStr ''transaction'', status = PStr ''posted'',
      description = PStr ''Coffee'', amount = PStr ''-4.50'',
      account = PStr ''acc-1'', balance = PStr ''100.00'',
      direction = PStr ''debit'', class_col = PStr ''payment'',
      institution = PStr ''AU00000'', postDate = PStr ''2023-01-01T00:00:00Z'',
      subClass_title = PNone, subClass_code = PNone, trans_u_id = 1\<rparr>"

definition demo_stored :: transaction_row where
  "demo_stored =
     \<lparr>id_col = PStr ''tx-1'', type_col = PStr ''transaction'', status = PStr ''posted'',
      description = PStr ''Coffee'', amount = PFloat 0xC012000000000000,
      account = PStr ''acc-1'', balance = PFloat 0x4059000000000000,
      direction = PStr ''debit'', class_col = PStr ''payment'',
      institution = PStr ''AU00000'', postDate = PStr ''2023-01-01T00:00:00Z'',
      subClass_title = PNone, subClass_code = PNone, trans_u_id = 1\<rparr>"

definition demo_cached :: db where
  "demo_cached = \<lparr>users = Some [demo_user], users_seq = 1, transactions = Some [demo_stored]\<rparr>"

section \<open>Auxiliary facts\<close>

subsection \<open>Parameters that are stored as they are\<close>

lemma bind_parameter_text:
  "v = PNone \<or> (\<exists>s. v = PStr s) \<Longrightarrow> bind_parameter n v = Inr v"
  by auto

lemma column_value_text:
  "v = PNone \<or> (\<exists>s. v = PStr s) \<Longrightarrow> column_value eng Text_affinity v = v"
  by auto


subsection \<open>The loop of cache_transactions\<close>

lemma insert_rows_append:
  "insert_rows eng d user_id (xs @ ys) =
     (case insert_rows eng d user_id xs of
        Inl e \<Rightarrow> Inl e
      | Inr d' \<Rightarrow> insert_rows eng d' user_id ys)"
  by (induction xs arbitrary: d) (auto split: sum.splits)

lemma insert_transaction_Inr:
  assumes "insert_transaction eng d r = Inr d'"
  obtains ts us b where "transactions d = Some ts" and "users d = Some us"
    and "bind_parameters r = Inr b"
    and "\<not> (id_col (stored_row eng b) \<noteq> PNone
            \<and> list_ex (\<lambda>t. id_col t = id_col (stored_row eng b)) ts)"
    and "list_ex (\<lambda>u. u_id u = trans_u_id (stored_row eng b)) us"
    and "d' = d\<lparr>transactions := Some (ts @ [stored_row eng b])\<rparr>"
  using assms
  by (auto simp: insert_transaction_def and_then_def Let_def
        split: option.splits sum.splits if_splits)

lemma insert_transaction_users: "insert_transaction eng d r = Inr d' \<Longrightarrow> users d' = users d"
  by (erule insert_transaction_Inr) simp

lemma insert_rows_users: "insert_rows eng d user_id rows = Inr d' \<Longrightarrow> users d' = users d"
proof (induction rows arbitrary: d)
  case Nil
  then show ?case by simp
next
  case (Cons row rows)
  then show ?case
    by (auto split: sum.splits dest: insert_transaction_users)
qed

lemma cache_transactions_users: "users (fst (cache_transactions eng d user_id rows)) = users d"
  by (auto simp: cache_transactions_def split: sum.splits failure.splits dest: insert_rows_users)


subsection \<open>User ids and the basiq_id column\<close>

lemma fold_max_ge: "a \<le> fold (\<lambda>u m. max (u_id u) m) us a"
proof (induction us arbitrary: a)
  case Nil
  then show ?case by simp
next
  case (Cons u us)
  have "a \<le> max (u_id u) a" by simp
  also have "\<dots> \<le> fold (\<lambda>u m. max (u_id u) m) us (max (u_id u) a)" by (rule Cons.IH)
  finally show ?case by simp
qed

lemma fold_max_member: "u \<in> set us \<Longrightarrow> u_id u \<le> fold (\<lambda>u m. max (u_id u) m) us a"
proof (induction us arbitrary: a)
  case Nil
  then show ?case by simp
next
  case (Cons v us)
  show ?case
  proof (cases "u = v")
    case True
    have "u_id v \<le> max (u_id v) a" by simp
    also have "\<dots> \<le> fold (\<lambda>u m. max (u_id u) m) us (max (u_id v) a)" by (rule fold_max_ge)
    finally show ?thesis using True by simp
  next
    case False
    with Cons.prems have "u \<in> set us" by simp
    then show ?thesis using Cons.IH by simp
  qed
qed

lemma max_u_id_member: "u \<in> set us \<Longrightarrow> u_id u \<le> max_u_id us"
  by (simp add: max_u_id_def fold_max_member)

lemma find_fresh_none: "\<forall>u \<in> set us. u_id u < k \<Longrightarrow> find (\<lambda>u. u_id u = k) us = None"
  by (auto simp: find_None_iff)

lemma find_append_other:
  "u_id new \<noteq> k \<Longrightarrow> find (\<lambda>u. u_id u = k) (us @ [new]) = find (\<lambda>u. u_id u = k) us"
  by (induction us) auto

lemma find_append_fresh:
  "find (\<lambda>u. u_id u = k) us = None \<Longrightarrow> u_id new = k \<Longrightarrow>
   find (\<lambda>u. u_id u = k) (us @ [new]) = Some new"
  by (induction us) (auto split: if_splits)

lemma find_map_basiq:
  "find (\<lambda>u. u_id u = k) (map (\<lambda>u. if u_id u = j then u\<lparr>basiq_id := b\<rparr> else u) us)
     = map_option (\<lambda>u. if u_id u = j then u\<lparr>basiq_id := b\<rparr> else u)
         (find (\<lambda>u. u_id u = k) us)"
  by (induction us) auto

lemma insert_user_Inr:
  assumes "insert_user eng d e m f mi l pw = Inr d'"
  obtains us new where "users d = Some us"
    and "u_id new = max (users_seq d) (max_u_id us) + 1"
    and "basiq_id new = PNone"
    and "d' = d\<lparr>users := Some (us @ [new]), users_seq := u_id new\<rparr>"
proof (cases "users d")
  case None
  with assms show ?thesis by (simp add: insert_user_def)
next
  case (Some us)
  from assms Some obtain be bm bf bmi bl bpw where
    d': "d' = d\<lparr>users := Some (us @
                 [\<lparr>u_id = max (users_seq d) (max_u_id us) + 1,
                   email = column_value eng Text_affinity be,
                   mobile = column_value eng Text_affinity bm,
                   first_name = column_value eng Text_affinity bf,
                   middle_name = column_value eng Text_affinity bmi,
                   last_name = column_value eng Text_affinity bl,
                   password = column_value eng Text_affinity bpw,
                   basiq_id = PNone\<rparr>]),
               users_seq := max (users_seq d) (max_u_id us) + 1\<rparr>"
    by (auto simp: insert_user_def and_then_def Let_def split: sum.splits if_splits)
  let ?new = "\<lparr>u_id = max (users_seq d) (max_u_id us) + 1,
                email = column_value eng Text_affinity be,
                mobile = column_value eng Text_affinity bm,
                first_name = column_value eng Text_affinity bf,
                middle_name = column_value eng Text_affinity bmi,
                last_name = column_value eng Text_affinity bl,
                password = column_value eng Text_affinity bpw,
                basiq_id = PNone\<rparr>"
  show ?thesis
    using Some d' by (intro that [of us ?new]) simp_all
qed

lemma register_user_db:
  "fst (register_user eng d e m f mi l pw) = d
   \<or> insert_user eng d e m f mi l pw = Inr (fst (register_user eng d e m f mi l pw))"
  by (auto simp: register_user_def split: sum.splits failure.splits)

lemma register_user_basiq:
  "basiq_id_of (fst (register_user eng d e m f mi l pw)) k = basiq_id_of d k
   \<or> (basiq_id_of d k = None
      \<and> basiq_id_of (fst (register_user eng d e m f mi l pw)) k = Some PNone)"
proof -
  let ?d' = "fst (register_user eng d e m f mi l pw)"
  from register_user_db [of eng d e m f mi l pw] show ?thesis
  proof
    assume "?d' = d"
    then show ?thesis by simp
  next
    assume "insert_user eng d e m f mi l pw = Inr ?d'"
    then obtain us new where us: "users d = Some us"
      and n: "u_id new = max (users_seq d) (max_u_id us) + 1"
      and b: "basiq_id new = PNone"
      and d': "?d' = d\<lparr>users := Some (us @ [new]), users_seq := u_id new\<rparr>"
      by (rule insert_user_Inr)
    have users': "users ?d' = Some (us @ [new])" by (simp add: d')
    have fresh: "\<forall>u \<in> set us. u_id u < u_id new"
    proof
      fix u assume "u \<in> set us"
      then have "u_id u \<le> max_u_id us" by (rule max_u_id_member)
      then show "u_id u < u_id new" using n by simp
    qed
    show ?thesis
    proof (cases "k = u_id new")
      case True
      have none: "find (\<lambda>u. u_id u = k) us = None"
        using fresh True by (simp add: find_fresh_none)
      have "find (\<lambda>u. u_id u = k) (us @ [new]) = Some new"
        using none True by (simp add: find_append_fresh)
      with none us users' b show ?thesis
        by (simp add: basiq_id_of_def table_rows_def)
    next
      case False
      then have "find (\<lambda>u. u_id u = k) (us @ [new]) = find (\<lambda>u. u_id u = k) us"
        by (simp add: find_append_other)
      with us users' show ?thesis
        by (simp add: basiq_id_of_def table_rows_def)
    qed
  qed
qed

lemma init_dolfin_db_basiq: "basiq_id_of (fst (init_dolfin_db d)) k = basiq_id_of d k"
  by (simp add: init_dolfin_db_def basiq_id_of_def table_rows_def Let_def split: option.splits)

lemma link_bank_account_db: "fst (link_bank_account p d user_id) = d"
  by (auto simp: link_bank_account_def Let_def split: option.splits sum.splits)

lemma clear_transactions_users: "users (fst (clear_transactions d)) = users d"
  by (simp add: clear_transactions_def split: option.splits)


text \<open>A call of \<^verbatim>\<open>register_basiq_id\<close> either leaves the database as it was and does
  not return its success message, or it updates the rows of the user and returns it.\<close>

lemma register_basiq_id_cases:
  obtains (unchanged) "fst (register_basiq_id eng p d u) = d"
      and "snd (snd (register_basiq_id eng p d u))
             \<noteq> Inr (PStr (''basiq_id updated successfully for user ID '' @ str_int u))"
  | (updated) new_basiq_id b us where
      "and_then (create_user_by_dict p (get_user_info d u) (access_token p))
         (\<lambda>resp. py_get resp ''id'') = Inr new_basiq_id"
      and "bind_parameter 1 new_basiq_id = Inr b"
      and "users d = Some us"
      and "list_ex (\<lambda>v. u_id v = u) us"
      and "fst (register_basiq_id eng p d u)
             = d\<lparr>users := Some (map (\<lambda>v. if u_id v = u
                       then v\<lparr>basiq_id := column_value eng Text_affinity b\<rparr> else v) us)\<rparr>"
      and "snd (snd (register_basiq_id eng p d u))
             = Inr (PStr (''basiq_id updated successfully for user ID '' @ str_int u))"
proof (cases "and_then (create_user_by_dict p (get_user_info d u) (access_token p))
                (\<lambda>resp. py_get resp ''id'')")
  case (Inl e)
  then show ?thesis by (intro unchanged) (simp_all add: register_basiq_id_def Let_def)
next
  case (Inr new_basiq_id)
  show ?thesis
  proof (cases "users d")
    case None
    with Inr show ?thesis
      by (intro unchanged)
         (simp_all add: register_basiq_id_def Let_def error_occurred_def)
  next
    case (Some us)
    show ?thesis
    proof (cases "bind_parameter 1 new_basiq_id")
      case (Inl f)
      with Inr Some show ?thesis
        by (intro unchanged; cases f)
           (simp_all add: register_basiq_id_def Let_def error_occurred_def)
    next
      case b: (Inr b)
      show ?thesis
      proof (cases "list_ex (\<lambda>v. u_id v = u) us")
        case False
        with Inr Some b show ?thesis
          by (intro unchanged)
             (simp_all add: register_basiq_id_def Let_def no_user_found_def)
      next
        case True
        with Inr Some b show ?thesis
          by (intro updated [of new_basiq_id b us])
             (simp_all add: register_basiq_id_def Let_def)
      qed
    qed
  qed
qed

lemma register_basiq_id_failed:
  "snd (snd (register_basiq_id eng p d u))
     \<noteq> Inr (PStr (''basiq_id updated successfully for user ID '' @ str_int u))
   \<Longrightarrow> fst (register_basiq_id eng p d u) = d"
  by (rule register_basiq_id_cases [of eng p d u]) simp_all

lemma register_basiq_id_others:
  assumes "k \<noteq> u"
  shows "basiq_id_of (fst (register_basiq_id eng p d u)) k = basiq_id_of d k"
proof (rule register_basiq_id_cases [of eng p d u])
  assume "fst (register_basiq_id eng p d u) = d"
  then show ?thesis by simp
next
  fix new_basiq_id b us
  assume us: "users d = Some us"
    and d': "fst (register_basiq_id eng p d u)
             = d\<lparr>users := Some (map (\<lambda>v. if u_id v = u
                       then v\<lparr>basiq_id := column_value eng Text_affinity b\<rparr> else v) us)\<rparr>"
  show ?thesis
  proof (cases "find (\<lambda>v. u_id v = k) us")
    case None
    with us d' show ?thesis
      by (simp add: basiq_id_of_def table_rows_def find_map_basiq)
  next
    case (Some r)
    then have "u_id r = k" by (auto simp: find_Some_iff)
    with assms Some us d' show ?thesis
      by (simp add: basiq_id_of_def table_rows_def find_map_basiq)
  qed
qed

lemma register_basiq_id_own:
  assumes "snd (snd (register_basiq_id eng p d u))
             = Inr (PStr (''basiq_id updated successfully for user ID '' @ str_int u))"
  shows "\<exists>new_basiq_id b.
           and_then (create_user_by_dict p (get_user_info d u) (access_token p))
             (\<lambda>resp. py_get resp ''id'') = Inr new_basiq_id
           \<and> bind_parameter 1 new_basiq_id = Inr b
           \<and> basiq_id_of (fst (register_basiq_id eng p d u)) u
               = Some (column_value eng Text_affinity b)"
proof (rule register_basiq_id_cases [of eng p d u])
  assume "snd (snd (register_basiq_id eng p d u))
             \<noteq> Inr (PStr (''basiq_id updated successfully for user ID '' @ str_int u))"
  with assms show ?thesis by simp
next
  fix new_basiq_id b us
  assume a: "and_then (create_user_by_dict p (get_user_info d u) (access_token p))
         (\<lambda>resp. py_get resp ''id'') = Inr new_basiq_id"
    and b: "bind_parameter 1 new_basiq_id = Inr b"
    and us: "users d = Some us"
    and ex: "list_ex (\<lambda>v. u_id v = u) us"
    and d': "fst (register_basiq_id eng p d u)
             = d\<lparr>users := Some (map (\<lambda>v. if u_id v = u
                       then v\<lparr>basiq_id := column_value eng Text_affinity b\<rparr> else v) us)\<rparr>"
  from ex obtain r where r: "find (\<lambda>v. u_id v = u) us = Some r"
    by (cases "find (\<lambda>v. u_id v = u) us") (auto simp: find_None_iff list_ex_iff)
  then have "u_id r = u" by (auto simp: find_Some_iff)
  with r d' have "basiq_id_of (fst (register_basiq_id eng p d u)) u
               = Some (column_value eng Text_affinity b)"
    by (simp add: basiq_id_of_def table_rows_def find_map_basiq)
  with a b show ?thesis by blast
qed


subsection \<open>Referential integrity is an invariant\<close>

lemma table_rows_simps:
  "table_rows None = []" "table_rows (Some rows) = rows"
  by (simp_all add: table_rows_def)

lemma ri_iff:
  "referential_integrity d \<longleftrightarrow>
     (\<forall>t \<in> set (table_rows (transactions d)).
        \<exists>u \<in> set (table_rows (users d)). u_id u = trans_u_id t)"
  by (simp add: referential_integrity_def list_all_iff list_ex_iff)

lemma ri_empty_db: "referential_integrity empty_db"
  by (simp add: ri_iff empty_db_def table_rows_simps)

lemma init_dolfin_db_rows:
  "table_rows (users (fst (init_dolfin_db d))) = table_rows (users d)"
  "table_rows (transactions (fst (init_dolfin_db d))) = table_rows (transactions d)"
  by (simp_all add: init_dolfin_db_def table_rows_simps Let_def split: option.splits)

lemma ri_init_dolfin_db:
  "referential_integrity d \<Longrightarrow> referential_integrity (fst (init_dolfin_db d))"
  by (simp add: ri_iff init_dolfin_db_rows)

lemma ri_register_user:
  assumes "referential_integrity d"
  shows "referential_integrity (fst (register_user eng d e m f mi l pw))"
proof -
  let ?d' = "fst (register_user eng d e m f mi l pw)"
  from register_user_db [of eng d e m f mi l pw] show ?thesis
  proof
    assume "?d' = d"
    with assms show ?thesis by simp
  next
    assume "insert_user eng d e m f mi l pw = Inr ?d'"
    then obtain us new where us: "users d = Some us"
      and d': "?d' = d\<lparr>users := Some (us @ [new]), users_seq := u_id new\<rparr>"
      by (rule insert_user_Inr)
    have "transactions ?d' = transactions d" and "users ?d' = Some (us @ [new])"
      by (simp_all add: d')
    with assms us show ?thesis by (auto simp: ri_iff table_rows_simps)
  qed
qed

lemma map_basiq_ex:
  "(\<exists>u \<in> set (map (\<lambda>u. if u_id u = k then u\<lparr>basiq_id := b\<rparr> else u) us). u_id u = j)
     \<longleftrightarrow> (\<exists>u \<in> set us. u_id u = j)"
  by (induction us) auto

lemma ri_register_basiq_id:
  assumes "referential_integrity d"
  shows "referential_integrity (fst (register_basiq_id eng p d k))"
proof (rule register_basiq_id_cases [of eng p d k])
  assume "fst (register_basiq_id eng p d k) = d"
  with assms show ?thesis by simp
next
  fix new_basiq_id b us
  assume us: "users d = Some us"
    and d': "fst (register_basiq_id eng p d k)
             = d\<lparr>users := Some (map (\<lambda>v. if u_id v = k
                       then v\<lparr>basiq_id := column_value eng Text_affinity b\<rparr> else v) us)\<rparr>"
  from assms us have "\<forall>t \<in> set (table_rows (transactions d)). \<exists>u \<in> set us. u_id u = trans_u_id t"
    by (simp add: ri_iff table_rows_simps)
  then show ?thesis
    unfolding ri_iff d' by (simp add: table_rows_simps map_basiq_ex del: set_map)
qed

lemma ri_insert_transaction:
  assumes "referential_integrity d" and "insert_transaction eng d r = Inr d'"
  shows "referential_integrity d'"
proof -
  from assms(2) obtain ts us b where
    t: "transactions d = Some ts" and u: "users d = Some us"
    and ex: "list_ex (\<lambda>u. u_id u = trans_u_id (stored_row eng b)) us"
    and d': "d' = d\<lparr>transactions := Some (ts @ [stored_row eng b])\<rparr>"
    by (rule insert_transaction_Inr)
  from ex have "\<exists>u \<in> set us. u_id u = trans_u_id (stored_row eng b)" by (simp add: list_ex_iff)
  with assms(1) t u d' show ?thesis by (auto simp: ri_iff table_rows_simps)
qed

lemma ri_insert_rows:
  "referential_integrity d \<Longrightarrow> insert_rows eng d k rows = Inr d' \<Longrightarrow> referential_integrity d'"
proof (induction rows arbitrary: d)
  case Nil
  then show ?case by simp
next
  case (Cons row rows)
  from Cons.prems(2) obtain r d1 where
    "insert_transaction eng d r = Inr d1" and "insert_rows eng d1 k rows = Inr d'"
    by (auto split: sum.splits)
  with Cons.prems(1) Cons.IH show ?case by (blast intro: ri_insert_transaction)
qed

lemma ri_cache_transactions:
  assumes "referential_integrity d"
  shows "referential_integrity (fst (cache_transactions eng d k rows))"
proof (cases "insert_rows eng d k rows")
  case (Inl e)
  with assms show ?thesis by (cases e) (simp_all add: cache_transactions_def)
next
  case (Inr d')
  with assms have "referential_integrity d'" by (blast intro: ri_insert_rows)
  with Inr show ?thesis by (simp add: cache_transactions_def)
qed

lemma ri_clear_transactions:
  "referential_integrity (fst (clear_transactions d))"
  by (cases "transactions d")
     (simp_all add: ri_iff clear_transactions_def table_rows_simps)

lemma ri_run: "referential_integrity d \<Longrightarrow> referential_integrity (run eng p operation d)"
  by (cases operation)
     (simp_all add: ri_init_dolfin_db ri_register_user ri_register_basiq_id
        link_bank_account_db ri_cache_transactions ri_clear_transactions)

lemma ri_delete_user:
  assumes "referential_integrity d"
  shows "referential_integrity (delete_user d k)"
proof (cases "users d")
  case None
  with assms show ?thesis by (simp add: delete_user_def)
next
  case us: (Some us)
  show ?thesis
  proof (cases "transactions d")
    case None
    with us show ?thesis by (simp add: ri_iff delete_user_def table_rows_simps)
  next
    case (Some ts)
    with us assms have "\<forall>t \<in> set ts. \<exists>u \<in> set us. u_id u = trans_u_id t"
      by (simp add: ri_iff table_rows_simps)
    then have "\<forall>t \<in> set ts. trans_u_id t \<noteq> k \<longrightarrow>
                 (\<exists>u \<in> set us. u_id u \<noteq> k \<and> u_id u = trans_u_id t)"
      by metis
    with us Some show ?thesis by (simp add: ri_iff delete_user_def table_rows_simps) blast
  qed
qed

lemma ri_reachable: "reachable d \<Longrightarrow> referential_integrity d"
  by (induction rule: reachable.induct) (simp_all add: ri_empty_db ri_run ri_delete_user)

lemma owned_by_delete_user:
  assumes "referential_integrity d"
  shows "owned_by (delete_user d k) k = []"
proof (cases "users d")
  case None
  with assms have "\<forall>t \<in> set (table_rows (transactions d)). False"
    by (simp add: ri_iff table_rows_simps)
  then have "table_rows (transactions d) = []" by (cases "table_rows (transactions d)") auto
  with None show ?thesis by (simp add: owned_by_def delete_user_def)
next
  case (Some us)
  then show ?thesis
    by (cases "transactions d")
       (simp_all add: owned_by_def delete_user_def table_rows_simps filter_empty_conv)
qed


subsection \<open>The code follows the normalization rule\<close>

lemma well_formed_record_fields:
  assumes "well_formed_record kvs"
  obtains v_type v_id v_status v_description v_amount v_account v_balance v_direction
          v_class v_institution v_postDate
  where "map_of kvs ''type'' = Some v_type" and "map_of kvs ''id'' = Some v_id"
    and "map_of kvs ''status'' = Some v_status"
    and "map_of kvs ''description'' = Some v_description"
    and "map_of kvs ''amount'' = Some v_amount" and "map_of kvs ''account'' = Some v_account"
    and "map_of kvs ''balance'' = Some v_balance"
    and "map_of kvs ''direction'' = Some v_direction"
    and "map_of kvs ''class'' = Some v_class"
    and "map_of kvs ''institution'' = Some v_institution"
    and "map_of kvs ''postDate'' = Some v_postDate"
  using assms by (auto simp: well_formed_record_def plain_fields_def)

lemma flatten_transaction_spec:
  assumes "well_formed_record kvs"
  shows "flatten_transaction (PDict kvs) = Inr (spec_normalized kvs)"
proof -
  from assms obtain v_type v_id v_status v_description v_amount v_account v_balance
      v_direction v_class v_institution v_postDate
    where f: "map_of kvs ''type'' = Some v_type" "map_of kvs ''id'' = Some v_id"
      "map_of kvs ''status'' = Some v_status"
      "map_of kvs ''description'' = Some v_description"
      "map_of kvs ''amount'' = Some v_amount" "map_of kvs ''account'' = Some v_account"
      "map_of kvs ''balance'' = Some v_balance"
      "map_of kvs ''direction'' = Some v_direction"
      "map_of kvs ''class'' = Some v_class"
      "map_of kvs ''institution'' = Some v_institution"
      "map_of kvs ''postDate'' = Some v_postDate"
    by (rule well_formed_record_fields)
  from assms have s: "case map_of kvs ''subClass'' of
            None \<Rightarrow> True
          | Some PNone \<Rightarrow> True
          | Some (PDict sub) \<Rightarrow> map_of sub ''title'' \<noteq> None \<and> map_of sub ''code'' \<noteq> None
          | Some _ \<Rightarrow> False"
    by (simp add: well_formed_record_def)
  show ?thesis
  proof (cases "map_of kvs ''subClass''")
    case None
    with f show ?thesis
      by (simp add: flatten_transaction_def and_then_def spec_normalized_def
            provider_field_def spec_subclass_def)
  next
    case (Some c)
    show ?thesis
    proof (cases c)
      case PNone
      with Some f show ?thesis
        by (simp add: flatten_transaction_def and_then_def spec_normalized_def
              provider_field_def spec_subclass_def)
    next
      case (PDict sub)
      with Some s obtain title code where
        tc: "map_of sub ''title'' = Some title" "map_of sub ''code'' = Some code"
        by auto
      then have "sub \<noteq> []" by auto
      with PDict Some f tc show ?thesis
        by (simp add: flatten_transaction_def and_then_def spec_normalized_def
              provider_field_def spec_subclass_def)
    qed (use Some s in simp_all)
  qed
qed

lemma flatten_all_spec:
  "list_all well_formed_record records \<Longrightarrow>
   flatten_all (map PDict records) = Inr (map spec_normalized records)"
  by (induction records) (simp_all add: flatten_transaction_spec and_then_def)

lemma spec_normalized_lookup:
  "map_of (spec_normalized kvs) ''type'' = Some (provider_field kvs ''type'')"
  "map_of (spec_normalized kvs) ''id'' = Some (provider_field kvs ''id'')"
  "map_of (spec_normalized kvs) ''status'' = Some (provider_field kvs ''status'')"
  "map_of (spec_normalized kvs) ''description'' = Some (provider_field kvs ''description'')"
  "map_of (spec_normalized kvs) ''amount'' = Some (provider_field kvs ''amount'')"
  "map_of (spec_normalized kvs) ''account'' = Some (provider_field kvs ''account'')"
  "map_of (spec_normalized kvs) ''balance'' = Some (provider_field kvs ''balance'')"
  "map_of (spec_normalized kvs) ''direction'' = Some (provider_field kvs ''direction'')"
  "map_of (spec_normalized kvs) ''class'' = Some (provider_field kvs ''class'')"
  "map_of (spec_normalized kvs) ''institution'' = Some (provider_field kvs ''institution'')"
  "map_of (spec_normalized kvs) ''postDate'' = Some (provider_field kvs ''postDate'')"
  by (simp_all add: spec_normalized_def)

lemma spec_normalized_plain:
  assumes "k \<in> set plain_fields" and "map_of kvs k = Some v"
  shows "map_of (spec_normalized kvs) k = Some v"
proof -
  from assms(1) have
    "k = ''type'' \<or> k = ''id'' \<or> k = ''status'' \<or> k = ''description'' \<or> k = ''amount''
     \<or> k = ''account'' \<or> k = ''balance'' \<or> k = ''direction'' \<or> k = ''class''
     \<or> k = ''institution'' \<or> k = ''postDate''"
    by (simp add: plain_fields_def)
  then have "map_of (spec_normalized kvs) k = Some (provider_field kvs k)"
    by (elim disjE) (simp_all only: spec_normalized_lookup)
  with assms(2) show ?thesis by (simp add: provider_field_def)
qed

lemma spec_normalized_subclass:
  "map_of (spec_normalized kvs) ''subClass_title'' = Some (spec_subclass kvs ''title'')"
  "map_of (spec_normalized kvs) ''subClass_code'' = Some (spec_subclass kvs ''code'')"
  by (simp_all add: spec_normalized_def)


subsection \<open>The scenario\<close>

lemma demo_insert_parameters: "insert_parameters demo_row 1 = Inr demo_parameters"
  by (simp add: insert_parameters_def row_getitem_def and_then_def demo_row_def
        demo_parameters_def)

lemma demo_bind_parameters:
  "bind_parameters demo_parameters
     = Inr demo_parameters"
  by (simp add: bind_parameters_def and_then_def demo_parameters_def)

lemma demo_stored_row:
  "stored_row demo_sqlite demo_parameters
     = demo_stored"
  by (simp add: stored_row_def demo_stored_def demo_parameters_def demo_sqlite_def)

lemma demo_facts:
  "transactions demo_db = Some []" "users demo_db = Some [demo_user]"
  "transactions demo_cached = Some [demo_stored]" "users demo_cached = Some [demo_user]"
  "id_col demo_stored = PStr ''tx-1''" "trans_u_id demo_stored = 1" "u_id demo_user = 1"
  "demo_db\<lparr>transactions := Some [demo_stored]\<rparr> = demo_cached"
  by (simp_all add: demo_db_def demo_cached_def demo_stored_def demo_user_def)

lemma demo_insert_first:
  "insert_transaction demo_sqlite demo_db
     demo_parameters = Inr demo_cached"
  by (simp add: insert_transaction_def demo_bind_parameters and_then_def demo_stored_row
        Let_def demo_facts)

lemma demo_insert_again:
  "insert_transaction demo_sqlite demo_cached
     demo_parameters
     = Inl (Sqlite (Unique_failed ''transactions.id''))"
  by (simp add: insert_transaction_def demo_bind_parameters and_then_def demo_stored_row
        Let_def demo_facts)

lemma demo_db_reachable: "reachable demo_db"
proof -
  have "run demo_sqlite demo_provider
          (Register_user (PStr ''a@x.com'') (PStr ''000'') (PStr ''A'') (PStr []) (PStr ''B'')
             (PStr ''h''))
          (run demo_sqlite demo_provider Init_dolfin_db empty_db) = demo_db"
    by (simp add: demo_db_def demo_user_def empty_db_def init_dolfin_db_def register_user_def
          insert_user_def and_then_def max_u_id_def)
  then show ?thesis by (metis reachable.start reachable.call)
qed

lemma demo_cached_run:
  "run demo_sqlite demo_provider (Cache_transactions 1 [demo_row]) demo_db = demo_cached"
  by (simp add: cache_transactions_def demo_insert_parameters demo_insert_first)

lemma demo_cached_reachable: "reachable demo_cached"
  using demo_db_reachable demo_cached_run by (metis reachable.call)

lemma demo_two_run:
  "run demo_sqlite demo_provider
     (Register_user (PStr ''c@x.com'') (PStr ''111'') (PStr ''C'') (PStr []) (PStr ''D'')
        (PStr ''k'')) demo_db = demo_two"
  by (simp add: demo_db_def demo_two_def demo_user_def demo_second_user_def register_user_def
        insert_user_def and_then_def max_u_id_def)

lemma demo_linked_run: "run demo_sqlite demo_provider (Register_basiq_id 1) demo_db = demo_linked"
  by (simp add: register_basiq_id_def demo_provider_def demo_db_def demo_linked_def
        demo_user_def and_then_def)


section \<open>Properties\<close>

subsection \<open>Ingestion\<close>

text \<open>
  C1, as the code has it. Let both tables exist, let the user exist, let no stored
  transaction carry the id \<open>x\<close>, and let every field of the normalized row \<open>T\<close> with id
  \<open>x\<close> be a value the driver can bind (no list, no dictionary, no integer beyond 64
  bits). Caching a data frame of the one row \<open>T\<close> stores exactly one row with that primary
  key, owned by the user, whose columns hold the fields of \<open>T\<close> as the declared type of
  each column stores them: a field that is a string or \<^verbatim>\<open>None\<close> is stored as it is in
  each of the \<^verbatim>\<open>VARCHAR\<close> and \<^verbatim>\<open>TEXT\<close> columns, while \<^verbatim>\<open>amount\<close> and
  \<^verbatim>\<open>balance\<close> hold the field under \<open>REAL\<close> affinity (a numeric string becomes a float)
  and \<^verbatim>\<open>postDate\<close> holds it under \<open>NUMERIC\<close> affinity. Caching the same data frame
  again leaves the database in that same state, with still exactly one row of id \<open>x\<close>,
  but the second call does not succeed: it returns the \<^verbatim>\<open>UNIQUE constraint failed\<close>
  message of the plain \<^verbatim>\<open>INSERT\<close>.
\<close>

theorem cache_transactions_replay:
  fixes v_type v_status v_description v_amount v_account v_balance v_direction v_class
        v_institution v_postDate v_title v_code :: pyval
    and b_type b_status b_description b_amount b_account b_balance b_direction b_class
        b_institution b_postDate b_title b_code :: pyval
    and x :: string and user_id :: int and eng :: sqlite
    and T :: "(string \<times> pyval) list" and stored :: transaction_row
  defines "T \<equiv> [(''type'', v_type), (''id'', PStr x), (''status'', v_status),
                 (''description'', v_description), (''amount'', v_amount),
                 (''account'', v_account), (''balance'', v_balance),
                 (''direction'', v_direction), (''class'', v_class),
                 (''institution'', v_institution), (''postDate'', v_postDate),
                 (''subClass_title'', v_title), (''subClass_code'', v_code)]"
      and "stored \<equiv>
             \<lparr>id_col = PStr x,
              type_col = column_value eng Text_affinity b_type,
              status = column_value eng Text_affinity b_status,
              description = column_value eng Text_affinity b_description,
              amount = column_value eng Real_affinity b_amount,
              account = column_value eng Text_affinity b_account,
              balance = column_value eng Real_affinity b_balance,
              direction = column_value eng Text_affinity b_direction,
              class_col = column_value eng Text_affinity b_class,
              institution = column_value eng Text_affinity b_institution,
              postDate = column_value eng Numeric_affinity b_postDate,
              subClass_title = column_value eng Text_affinity b_title,
              subClass_code = column_value eng Text_affinity b_code,
              trans_u_id = user_id\<rparr>"
  assumes "users d = Some us"
      and "transactions d = Some ts"
      and "list_ex (\<lambda>u. u_id u = user_id) us"
      and "\<not> list_ex (\<lambda>t. id_col t = PStr x) ts"
      and "bind_parameter 2 v_type = Inr b_type"
      and "bind_parameter 3 v_status = Inr b_status"
      and "bind_parameter 4 v_description = Inr b_description"
      and "bind_parameter 5 v_amount = Inr b_amount"
      and "bind_parameter 6 v_account = Inr b_account"
      and "bind_parameter 7 v_balance = Inr b_balance"
      and "bind_parameter 8 v_direction = Inr b_direction"
      and "bind_parameter 9 v_class = Inr b_class"
      and "bind_parameter 10 v_institution = Inr b_institution"
      and "bind_parameter 11 v_postDate = Inr b_postDate"
      and "bind_parameter 12 v_title = Inr b_title"
      and "bind_parameter 13 v_code = Inr b_code"
  shows "cache_transactions eng d user_id [T]
           = (d\<lparr>transactions := Some (ts @ [stored])\<rparr>,
              Inr (PStr ''Transactions successfully inserted.''))
       \<and> cache_transactions eng (d\<lparr>transactions := Some (ts @ [stored])\<rparr>) user_id [T]
           = (d\<lparr>transactions := Some (ts @ [stored])\<rparr>,
              Inr (PStr ''An error occurred: UNIQUE constraint failed: transactions.id''))
       \<and> filter (\<lambda>t. id_col t = PStr x) (ts @ [stored]) = [stored]
       \<and> (\<forall>n v. v = PNone \<or> (\<exists>s. v = PStr s) \<longrightarrow>
             bind_parameter n v = Inr v \<and> column_value eng Text_affinity v = v)"
proof -
  let ?r = "\<lparr>id_col = PStr x, type_col = v_type, status = v_status,
             description = v_description, amount = v_amount, account = v_account,
             balance = v_balance, direction = v_direction, class_col = v_class,
             institution = v_institution, postDate = v_postDate,
             subClass_title = v_title, subClass_code = v_code, trans_u_id = user_id\<rparr>"
  let ?b = "\<lparr>id_col = PStr x, type_col = b_type, status = b_status,
             description = b_description, amount = b_amount, account = b_account,
             balance = b_balance, direction = b_direction, class_col = b_class,
             institution = b_institution, postDate = b_postDate,
             subClass_title = b_title, subClass_code = b_code, trans_u_id = user_id\<rparr>"
  have p: "insert_parameters T user_id = Inr ?r"
    by (simp add: insert_parameters_def row_getitem_def and_then_def T_def)
  have b: "bind_parameters ?r = Inr ?b"
    using assms(7-18) by (simp add: bind_parameters_def and_then_def)
  have s: "stored_row eng ?b = stored"
    by (simp add: stored_row_def stored_def)
  have i: "id_col stored = PStr x" by (simp add: stored_def)
  have o: "trans_u_id stored = user_id" by (simp add: stored_def)
  have 1: "insert_transaction eng d ?r = Inr (d\<lparr>transactions := Some (ts @ [stored])\<rparr>)"
    using assms(3-6) i o by (simp add: insert_transaction_def b s and_then_def Let_def)
  have 2: "insert_transaction eng (d\<lparr>transactions := Some (ts @ [stored])\<rparr>) ?r
             = Inl (Sqlite (Unique_failed ''transactions.id''))"
    using assms(3-6) i o by (simp add: insert_transaction_def b s and_then_def Let_def)
  have 3: "filter (\<lambda>t. id_col t = PStr x) ts = []"
    using assms(6) by (simp add: list_ex_iff filter_empty_conv)
  have 4: "\<forall>n v. v = PNone \<or> (\<exists>s. v = PStr s) \<longrightarrow>
             bind_parameter n v = Inr v \<and> column_value eng Text_affinity v = v"
    using bind_parameter_text column_value_text by blast
  show ?thesis using p 1 2 3 4 i
    by (simp add: cache_transactions_def error_occurred_def)
qed

theorem cache_transactions_replay_witness:
  "users demo_db = Some [demo_user]
   \<and> transactions demo_db = Some []
   \<and> list_ex (\<lambda>u. u_id u = 1) [demo_user]
   \<and> \<not> list_ex (\<lambda>t. id_col t = PStr ''tx-1'') []
   \<and> (\<forall>k s. bind_parameter k (PStr s) = Inr (PStr s))
   \<and> (\<forall>k. bind_parameter k PNone = Inr PNone)
   \<and> column_value demo_sqlite Real_affinity (PStr ''-4.50'') = PFloat 0xC012000000000000
   \<and> cache_transactions demo_sqlite demo_db 1 [demo_row]
       = (demo_cached, Inr (PStr ''Transactions successfully inserted.''))
   \<and> cache_transactions demo_sqlite demo_cached 1 [demo_row]
       = (demo_cached,
          Inr (PStr ''An error occurred: UNIQUE constraint failed: transactions.id''))
   \<and> filter (\<lambda>t. id_col t = PStr ''tx-1'') (table_rows (transactions demo_cached))
       = [demo_stored]"
proof -
  have u: "users demo_db = Some [demo_user]" by (simp add: demo_db_def)
  have t: "transactions demo_db = Some []" by (simp add: demo_db_def)
  have e: "list_ex (\<lambda>u. u_id u = 1) [demo_user]" by (simp add: demo_user_def)
  have n: "\<not> list_ex (\<lambda>t. id_col t = PStr ''tx-1'') []" by simp
  have b: "\<And>k s. bind_parameter k (PStr s) = Inr (PStr s)"
          "\<And>k. bind_parameter k PNone = Inr PNone" by simp_all
  have ball: "(\<forall>k s. bind_parameter k (PStr s) = Inr (PStr s))
              \<and> (\<forall>k. bind_parameter k PNone = Inr PNone)" by simp
  have c: "demo_db\<lparr>transactions := Some ([] @ [demo_stored])\<rparr> = demo_cached"
    by (simp add: demo_db_def demo_cached_def)
  have v: "column_value demo_sqlite Real_affinity (PStr ''-4.50'') = PFloat 0xC012000000000000"
    by (simp add: demo_sqlite_def)
  note inst = cache_transactions_replay [
      where v_type = "PStr ''transaction''" and v_status = "PStr ''posted''"
        and v_description = "PStr ''Coffee''" and v_amount = "PStr ''-4.50''"
        and v_account = "PStr ''acc-1''" and v_balance = "PStr ''100.00''"
        and v_direction = "PStr ''debit''" and v_class = "PStr ''payment''"
        and v_institution = "PStr ''AU00000''" and v_postDate = "PStr ''2023-01-01T00:00:00Z''"
        and v_title = PNone and v_code = PNone and eng = demo_sqlite,
      OF u t e n b(1) b(1) b(1) b(1) b(1) b(1) b(1) b(1) b(1) b(1) b(2) b(2)]
  have s: "\<lparr>id_col = PStr ''tx-1'',
              type_col = column_value demo_sqlite Text_affinity (PStr ''transaction''),
              status = column_value demo_sqlite Text_affinity (PStr ''posted''),
              description = column_value demo_sqlite Text_affinity (PStr ''Coffee''),
              amount = column_value demo_sqlite Real_affinity (PStr ''-4.50''),
              account = column_value demo_sqlite Text_affinity (PStr ''acc-1''),
              balance = column_value demo_sqlite Real_affinity (PStr ''100.00''),
              direction = column_value demo_sqlite Text_affinity (PStr ''debit''),
              class_col = column_value demo_sqlite Text_affinity (PStr ''payment''),
              institution = column_value demo_sqlite Text_affinity (PStr ''AU00000''),
              postDate = column_value demo_sqlite Numeric_affinity (PStr ''2023-01-01T00:00:00Z''),
              subClass_title = column_value demo_sqlite Text_affinity PNone,
              subClass_code = column_value demo_sqlite Text_affinity PNone,
              trans_u_id = 1\<rparr> = demo_stored"
    by (simp add: demo_stored_def demo_sqlite_def)
  from inst [unfolded s c]
  have "cache_transactions demo_sqlite demo_db 1 [demo_row]
       = (demo_cached, Inr (PStr ''Transactions successfully inserted.''))
   \<and> cache_transactions demo_sqlite demo_cached 1 [demo_row]
       = (demo_cached,
          Inr (PStr ''An error occurred: UNIQUE constraint failed: transactions.id''))
   \<and> filter (\<lambda>t. id_col t = PStr ''tx-1'') [demo_stored] = [demo_stored]"
    by (simp add: demo_row_def)
  with u t e n v ball show ?thesis by (simp add: demo_cached_def table_rows_def)
qed

text \<open>C1 as stated fails: in the scenario the replay of the same row returns an error
  message instead of succeeding.\<close>

theorem cache_transactions_replay_counterexample:
  "cache_transactions demo_sqlite demo_db 1 [demo_row]
     = (demo_cached, Inr (PStr ''Transactions successfully inserted.''))
   \<and> cache_transactions demo_sqlite demo_cached 1 [demo_row]
     = (demo_cached,
        Inr (PStr ''An error occurred: UNIQUE constraint failed: transactions.id''))"
  by (simp add: cache_transactions_def demo_insert_parameters demo_insert_first
        demo_insert_again error_occurred_def)

text \<open>
  C5. A call of \<^verbatim>\<open>cache_transactions\<close> that does not return its success message leaves
  the database exactly as it was. In particular, when the rows before some row are
  inserted and the insert of that row fails with an \<^verbatim>\<open>sqlite3.Error\<close>, the call returns
  the \<^verbatim>\<open>An error occurred\<close> message of that failure and none of the earlier rows of
  the batch is kept.
\<close>

theorem cache_transactions_atomic:
  "(snd (cache_transactions eng d user_id rows)
      \<noteq> Inr (PStr ''Transactions successfully inserted.'')
      \<longrightarrow> fst (cache_transactions eng d user_id rows) = d)
   \<and> (\<forall>pre bad rest d1 r e.
        rows = pre @ bad # rest \<and> insert_rows eng d user_id pre = Inr d1
        \<and> insert_parameters bad user_id = Inr r
        \<and> insert_transaction eng d1 r = Inl (Sqlite e)
        \<longrightarrow> cache_transactions eng d user_id rows = (d, Inr (error_occurred e)))"
proof (intro conjI allI impI)
  assume "snd (cache_transactions eng d user_id rows)
            \<noteq> Inr (PStr ''Transactions successfully inserted.'')"
  then show "fst (cache_transactions eng d user_id rows) = d"
    by (auto simp: cache_transactions_def split: sum.splits failure.splits)
next
  fix pre bad rest d1 r e
  assume h: "rows = pre @ bad # rest \<and> insert_rows eng d user_id pre = Inr d1
        \<and> insert_parameters bad user_id = Inr r
        \<and> insert_transaction eng d1 r = Inl (Sqlite e)"
  then have "insert_rows eng d user_id rows = Inl (Sqlite e)"
    by (simp add: insert_rows_append)
  then show "cache_transactions eng d user_id rows = (d, Inr (error_occurred e))"
    by (simp add: cache_transactions_def)
qed

theorem cache_transactions_atomic_witness:
  "[demo_row, demo_row] = [demo_row] @ demo_row # []
   \<and> insert_rows demo_sqlite demo_db 1 [demo_row] = Inr demo_cached
   \<and> insert_parameters demo_row 1
       = Inr demo_parameters
   \<and> insert_transaction demo_sqlite demo_cached
        demo_parameters
       = Inl (Sqlite (Unique_failed ''transactions.id''))
   \<and> cache_transactions demo_sqlite demo_db 1 [demo_row, demo_row]
       = (demo_db, Inr (PStr ''An error occurred: UNIQUE constraint failed: transactions.id''))
   \<and> snd (cache_transactions demo_sqlite demo_db 7 [demo_row])
       \<noteq> Inr (PStr ''Transactions successfully inserted.'')
   \<and> fst (cache_transactions demo_sqlite demo_db 7 [demo_row]) = demo_db"
proof -
  have a: "[demo_row, demo_row] = [demo_row] @ demo_row # []" by simp
  have b: "insert_rows demo_sqlite demo_db 1 [demo_row] = Inr demo_cached"
    by (simp add: demo_insert_parameters demo_insert_first)
  note c = demo_insert_parameters
  note e = demo_insert_again
  have p7: "insert_parameters demo_row 7
              = Inr (demo_parameters\<lparr>trans_u_id := 7\<rparr>)"
    by (simp add: insert_parameters_def row_getitem_def and_then_def demo_row_def
          demo_parameters_def)
  have i7: "insert_transaction demo_sqlite demo_db
              (demo_parameters\<lparr>trans_u_id := 7\<rparr>) = Inl (Sqlite Foreign_key_failed)"
    by (simp add: insert_transaction_def bind_parameters_def and_then_def stored_row_def
          demo_parameters_def demo_sqlite_def demo_db_def demo_user_def Let_def)
  have f: "snd (cache_transactions demo_sqlite demo_db 7 [demo_row])
             \<noteq> Inr (PStr ''Transactions successfully inserted.'')"
    by (simp add: cache_transactions_def p7 i7 error_occurred_def)
  from cache_transactions_atomic [of demo_sqlite demo_db 1 "[demo_row, demo_row]"] a b c e
  have 1: "cache_transactions demo_sqlite demo_db 1 [demo_row, demo_row]
       = (demo_db, Inr (error_occurred (Unique_failed ''transactions.id'')))" by blast
  from cache_transactions_atomic [of demo_sqlite demo_db 7 "[demo_row]"] f
  have 2: "fst (cache_transactions demo_sqlite demo_db 7 [demo_row]) = demo_db" by blast
  from a b c e f 1 2 show ?thesis by (simp add: error_occurred_def)
qed

subsection \<open>Normalization\<close>

text \<open>
  C4. When the provider answers with \<^verbatim>\<open>{'data': [records]}\<close> and each record is well
  formed, \<^verbatim>\<open>request_transactions_df\<close> returns, after its one call of the provider, the
  rows of the normalized records in their order. In the row of a record each of the fields
  \<^verbatim>\<open>type\<close>, \<^verbatim>\<open>id\<close>, \<^verbatim>\<open>status\<close>, \<^verbatim>\<open>description\<close>, \<^verbatim>\<open>amount\<close>, \<^verbatim>\<open>account\<close>,
  \<^verbatim>\<open>balance\<close>, \<^verbatim>\<open>direction\<close>, \<^verbatim>\<open>class\<close>, \<^verbatim>\<open>institution\<close> and \<^verbatim>\<open>postDate\<close> is
  the field of the record, unchanged; when \<^verbatim>\<open>subClass\<close> is missing or \<^verbatim>\<open>null\<close>,
  \<^verbatim>\<open>subClass_title\<close> and \<^verbatim>\<open>subClass_code\<close> are \<^verbatim>\<open>None\<close>, and when \<^verbatim>\<open>subClass\<close> is
  a dictionary with \<^verbatim>\<open>title\<close> and \<^verbatim>\<open>code\<close>, both are copied as they are.
\<close>

theorem request_transactions_df_normalizes:
  assumes "get_transaction_list p (get_basiq_id d user_id) limit_para filter_para
             (access_token p) = Inr (PDict response)"
      and "map_of response ''data'' = Some (PList (map PDict records))"
      and "list_all well_formed_record records"
  shows "request_transactions_df p d user_id limit_para filter_para
           = ([Call_get_transaction_list (get_basiq_id d user_id) limit_para filter_para
                 (access_token p)],
              Inr (map spec_normalized records))
       \<and> (\<forall>kvs \<in> set records.
            (\<forall>k \<in> set plain_fields. map_of (spec_normalized kvs) k = map_of kvs k)
            \<and> (map_of kvs ''subClass'' = None \<or> map_of kvs ''subClass'' = Some PNone \<longrightarrow>
                 map_of (spec_normalized kvs) ''subClass_title'' = Some PNone
                 \<and> map_of (spec_normalized kvs) ''subClass_code'' = Some PNone)
            \<and> (\<forall>sub title code.
                 map_of kvs ''subClass'' = Some (PDict sub)
                 \<and> map_of sub ''title'' = Some title \<and> map_of sub ''code'' = Some code \<longrightarrow>
                 map_of (spec_normalized kvs) ''subClass_title'' = Some title
                 \<and> map_of (spec_normalized kvs) ''subClass_code'' = Some code))"
proof -
  have 1: "request_transactions_df p d user_id limit_para filter_para
           = ([Call_get_transaction_list (get_basiq_id d user_id) limit_para filter_para
                 (access_token p)],
              Inr (map spec_normalized records))"
    using assms
    by (simp add: request_transactions_df_def Let_def and_then_def flatten_all_spec)
  have 2: "\<forall>k \<in> set plain_fields. map_of (spec_normalized kvs) k = map_of kvs k"
    if "kvs \<in> set records" for kvs
  proof
    fix k assume k: "k \<in> set plain_fields"
    from that assms(3) have "well_formed_record kvs" by (simp add: list_all_iff)
    with k obtain v where "map_of kvs k = Some v"
      by (auto simp: well_formed_record_def list_all_iff)
    with k show "map_of (spec_normalized kvs) k = map_of kvs k"
      by (simp add: spec_normalized_plain)
  qed
  have 3: "map_of kvs ''subClass'' = None \<or> map_of kvs ''subClass'' = Some PNone \<longrightarrow>
          map_of (spec_normalized kvs) ''subClass_title'' = Some PNone
          \<and> map_of (spec_normalized kvs) ''subClass_code'' = Some PNone" for kvs
    by (auto simp: spec_normalized_subclass spec_subclass_def)
  have 4: "\<forall>sub title code.
          map_of kvs ''subClass'' = Some (PDict sub)
          \<and> map_of sub ''title'' = Some title \<and> map_of sub ''code'' = Some code \<longrightarrow>
          map_of (spec_normalized kvs) ''subClass_title'' = Some title
          \<and> map_of (spec_normalized kvs) ''subClass_code'' = Some code" for kvs
    by (auto simp: spec_normalized_subclass spec_subclass_def provider_field_def)
  show ?thesis
  proof (intro conjI ballI)
    show "request_transactions_df p d user_id limit_para filter_para
           = ([Call_get_transaction_list (get_basiq_id d user_id) limit_para filter_para
                 (access_token p)],
              Inr (map spec_normalized records))" by (rule 1)
  qed (use 2 3 4 in blast)+
qed

theorem request_transactions_df_normalizes_witness:
  "get_transaction_list demo_provider (get_basiq_id demo_linked 1) (PInt 500) (PStr [])
     (access_token demo_provider)
     = Inr (PDict [(''data'', PList (map PDict [demo_record, demo_record_plain]))])
   \<and> map_of [(''data'', PList (map PDict [demo_record, demo_record_plain]))] ''data''
       = Some (PList (map PDict [demo_record, demo_record_plain]))
   \<and> list_all well_formed_record [demo_record, demo_record_plain]
   \<and> request_transactions_df demo_provider demo_linked 1 (PInt 500) (PStr [])
       = ([Call_get_transaction_list (PStr ''basiq-1'') (PInt 500) (PStr []) (PStr ''token'')],
          Inr [[(''type'', PStr ''transaction''), (''id'', PStr ''tx-2''),
                (''status'', PStr ''posted''), (''description'', PStr ''Market''),
                (''amount'', PStr ''-20.00''), (''account'', PStr ''acc-1''),
                (''balance'', PStr ''80.00''), (''direction'', PStr ''debit''),
                (''class'', PStr ''payment''), (''institution'', PStr ''AU00000''),
                (''postDate'', PStr ''2023-01-02T00:00:00Z''),
                (''subClass_title'', PStr ''Groceries''), (''subClass_code'', PStr ''G1'')],
               demo_row])"
proof -
  have g: "get_basiq_id demo_linked 1 = PStr ''basiq-1''"
    by (simp add: get_basiq_id_def demo_linked_def demo_user_def)
  have a: "get_transaction_list demo_provider (get_basiq_id demo_linked 1) (PInt 500) (PStr [])
     (access_token demo_provider)
     = Inr (PDict [(''data'', PList (map PDict [demo_record, demo_record_plain]))])"
    by (simp add: g demo_provider_def)
  have b: "map_of [(''data'', PList (map PDict [demo_record, demo_record_plain]))] ''data''
       = Some (PList (map PDict [demo_record, demo_record_plain]))" by simp
  have c: "list_all well_formed_record [demo_record, demo_record_plain]"
    by (simp add: well_formed_record_def plain_fields_def demo_record_def
          demo_record_plain_def)
  have n1: "spec_normalized demo_record =
              [(''type'', PStr ''transaction''), (''id'', PStr ''tx-2''),
                (''status'', PStr ''posted''), (''description'', PStr ''Market''),
                (''amount'', PStr ''-20.00''), (''account'', PStr ''acc-1''),
                (''balance'', PStr ''80.00''), (''direction'', PStr ''debit''),
                (''class'', PStr ''payment''), (''institution'', PStr ''AU00000''),
                (''postDate'', PStr ''2023-01-02T00:00:00Z''),
                (''subClass_title'', PStr ''Groceries''), (''subClass_code'', PStr ''G1'')]"
    by (simp add: spec_normalized_def provider_field_def spec_subclass_def demo_record_def)
  have n2: "spec_normalized demo_record_plain = demo_row"
    by (simp add: spec_normalized_def provider_field_def spec_subclass_def
          demo_record_plain_def demo_row_def)
  have t: "access_token demo_provider = PStr ''token''" by (simp add: demo_provider_def)
  from request_transactions_df_normalizes [OF a b c, THEN conjunct1]
  have "request_transactions_df demo_provider demo_linked 1 (PInt 500) (PStr [])
       = ([Call_get_transaction_list (PStr ''basiq-1'') (PInt 500) (PStr []) (PStr ''token'')],
          Inr [spec_normalized demo_record, spec_normalized demo_record_plain])"
    by (simp add: g t)
  with a b c show ?thesis by (simp only: n1 n2 simp_thms)
qed

subsection \<open>Users and their transactions\<close>

text \<open>
  C3. In every database that calls of the module and deletions of users produce from a
  new database file, each row of \<^verbatim>\<open>transactions\<close> references an existing user; and
  after the deletion of a user, the user is gone, no row of \<^verbatim>\<open>transactions\<close> is owned by
  that user, and each remaining row still references an existing user.
\<close>

theorem cascade_integrity:
  assumes "reachable d"
  shows "referential_integrity d
       \<and> owned_by (delete_user d user_id) user_id = []
       \<and> \<not> list_ex (\<lambda>u. u_id u = user_id) (table_rows (users (delete_user d user_id)))
       \<and> referential_integrity (delete_user d user_id)"
proof -
  have ri: "referential_integrity d" using assms by (rule ri_reachable)
  have gone: "\<not> list_ex (\<lambda>u. u_id u = user_id) (table_rows (users (delete_user d user_id)))"
  proof (cases "users d")
    case None
    then show ?thesis by (simp add: delete_user_def table_rows_simps)
  next
    case (Some us)
    then show ?thesis by (simp add: delete_user_def table_rows_simps list_ex_iff)
  qed
  from ri gone show ?thesis by (simp add: owned_by_delete_user ri_delete_user)
qed

theorem cascade_integrity_witness:
  "reachable demo_cached
   \<and> owned_by demo_cached 1 = [demo_stored]
   \<and> referential_integrity demo_cached
   \<and> owned_by (delete_user demo_cached 1) 1 = []
   \<and> referential_integrity (delete_user demo_cached 1)"
proof -
  have o: "owned_by demo_cached 1 = [demo_stored]"
    by (simp add: owned_by_def demo_cached_def demo_stored_def table_rows_def)
  from cascade_integrity [OF demo_cached_reachable, of 1] demo_cached_reachable o
  show ?thesis by simp
qed

text \<open>
  C7. \<^verbatim>\<open>register_user\<close>, when the table exists, the id counter is not exhausted and
  the driver can bind its six arguments, appends one row, whose \<^verbatim>\<open>basiq_id\<close> is
  \<^verbatim>\<open>None\<close>. Every call other than \<^verbatim>\<open>register_basiq_id\<close> leaves the \<^verbatim>\<open>basiq_id\<close> of
  every user as it was, and a user it creates has \<^verbatim>\<open>basiq_id\<close> \<^verbatim>\<open>None\<close>. A call of
  \<^verbatim>\<open>register_basiq_id\<close> for a user leaves the \<^verbatim>\<open>basiq_id\<close> of every other user as it
  was; when it does not return its success message it leaves the whole database as it
  was; and when it returns its success message the \<^verbatim>\<open>basiq_id\<close> of that user is the id
  the provider answered, as the \<^verbatim>\<open>VARCHAR\<close> column stores it.
\<close>

theorem basiq_id_lifecycle:
  "(\<forall>us be bm bf bmi bl bpw.
      users d = Some us \<and> max (users_seq d) (max_u_id us) < 9223372036854775807
      \<and> bind_parameter 1 e = Inr be \<and> bind_parameter 2 m = Inr bm
      \<and> bind_parameter 3 f = Inr bf \<and> bind_parameter 4 mi = Inr bmi
      \<and> bind_parameter 5 l = Inr bl \<and> bind_parameter 6 pw = Inr bpw \<longrightarrow>
      users (fst (register_user eng d e m f mi l pw)) =
        Some (us @ [\<lparr>u_id = max (users_seq d) (max_u_id us) + 1,
                      email = column_value eng Text_affinity be,
                      mobile = column_value eng Text_affinity bm,
                      first_name = column_value eng Text_affinity bf,
                      middle_name = column_value eng Text_affinity bmi,
                      last_name = column_value eng Text_affinity bl,
                      password = column_value eng Text_affinity bpw,
                      basiq_id = PNone\<rparr>]))
   \<and> ((\<forall>u. operation \<noteq> Register_basiq_id u) \<longrightarrow>
        basiq_id_of (run eng p operation d) user_id = basiq_id_of d user_id
        \<or> (basiq_id_of d user_id = None
           \<and> basiq_id_of (run eng p operation d) user_id = Some PNone))
   \<and> (user_id \<noteq> u \<longrightarrow>
        basiq_id_of (fst (register_basiq_id eng p d u)) user_id = basiq_id_of d user_id)
   \<and> (snd (snd (register_basiq_id eng p d u))
         \<noteq> Inr (PStr (''basiq_id updated successfully for user ID '' @ str_int u))
       \<longrightarrow> fst (register_basiq_id eng p d u) = d)
   \<and> (snd (snd (register_basiq_id eng p d u))
         = Inr (PStr (''basiq_id updated successfully for user ID '' @ str_int u))
       \<longrightarrow> (\<exists>new_basiq_id b.
              and_then (create_user_by_dict p (get_user_info d u) (access_token p))
                (\<lambda>resp. py_get resp ''id'') = Inr new_basiq_id
              \<and> bind_parameter 1 new_basiq_id = Inr b
              \<and> basiq_id_of (fst (register_basiq_id eng p d u)) u
                  = Some (column_value eng Text_affinity b)))"
proof (intro conjI allI impI)
  fix us be bm bf bmi bl bpw
  assume h: "users d = Some us \<and> max (users_seq d) (max_u_id us) < 9223372036854775807
      \<and> bind_parameter 1 e = Inr be \<and> bind_parameter 2 m = Inr bm
      \<and> bind_parameter 3 f = Inr bf \<and> bind_parameter 4 mi = Inr bmi
      \<and> bind_parameter 5 l = Inr bl \<and> bind_parameter 6 pw = Inr bpw"
  then have "\<not> max (users_seq d) (max_u_id us) + 1 > 9223372036854775807" by auto
  with h show "users (fst (register_user eng d e m f mi l pw)) =
        Some (us @ [\<lparr>u_id = max (users_seq d) (max_u_id us) + 1,
                      email = column_value eng Text_affinity be,
                      mobile = column_value eng Text_affinity bm,
                      first_name = column_value eng Text_affinity bf,
                      middle_name = column_value eng Text_affinity bmi,
                      last_name = column_value eng Text_affinity bl,
                      password = column_value eng Text_affinity bpw,
                      basiq_id = PNone\<rparr>])"
    by (simp add: register_user_def insert_user_def and_then_def Let_def)
next
  assume other: "\<forall>u. operation \<noteq> Register_basiq_id u"
  show "basiq_id_of (run eng p operation d) user_id = basiq_id_of d user_id
        \<or> (basiq_id_of d user_id = None
           \<and> basiq_id_of (run eng p operation d) user_id = Some PNone)"
  proof (cases operation)
    case Init_dolfin_db
    then show ?thesis by (simp add: init_dolfin_db_basiq)
  next
    case (Register_user e' m' f' mi' l' pw')
    then show ?thesis using register_user_basiq [of eng d e' m' f' mi' l' pw' user_id] by simp
  next
    case (Register_basiq_id u')
    with other show ?thesis by simp
  next
    case (Link_bank_account u')
    then show ?thesis by (simp add: link_bank_account_db)
  next
    case (Cache_transactions u' rows)
    then show ?thesis by (simp add: basiq_id_of_def cache_transactions_users)
  next
    case Clear_transactions
    then show ?thesis by (simp add: basiq_id_of_def clear_transactions_users)
  qed simp_all
next
  assume "user_id \<noteq> u"
  then show "basiq_id_of (fst (register_basiq_id eng p d u)) user_id = basiq_id_of d user_id"
    by (rule register_basiq_id_others)
next
  assume "snd (snd (register_basiq_id eng p d u))
         \<noteq> Inr (PStr (''basiq_id updated successfully for user ID '' @ str_int u))"
  then show "fst (register_basiq_id eng p d u) = d" by (rule register_basiq_id_failed)
next
  assume "snd (snd (register_basiq_id eng p d u))
         = Inr (PStr (''basiq_id updated successfully for user ID '' @ str_int u))"
  then show "\<exists>new_basiq_id b.
              and_then (create_user_by_dict p (get_user_info d u) (access_token p))
                (\<lambda>resp. py_get resp ''id'') = Inr new_basiq_id
              \<and> bind_parameter 1 new_basiq_id = Inr b
              \<and> basiq_id_of (fst (register_basiq_id eng p d u)) u
                  = Some (column_value eng Text_affinity b)"
    by (rule register_basiq_id_own)
qed

theorem basiq_id_lifecycle_witness:
  "users demo_db = Some [demo_user]
   \<and> max (users_seq demo_db) (max_u_id [demo_user]) < 9223372036854775807
   \<and> (\<forall>n s. bind_parameter n (PStr s) = Inr (PStr s))
   \<and> users (fst (register_user demo_sqlite demo_db (PStr ''c@x.com'') (PStr ''111'')
                    (PStr ''C'') (PStr []) (PStr ''D'') (PStr ''k'')))
       = Some [demo_user, demo_second_user]
   \<and> basiq_id_of demo_two 1 = Some PNone
   \<and> basiq_id_of demo_two 2 = Some PNone
   \<and> basiq_id_of (run demo_sqlite demo_provider (Cache_transactions 1 [demo_row]) demo_two) 1
       = Some PNone
   \<and> snd (snd (register_basiq_id demo_sqlite demo_provider demo_two 1))
       = Inr (PStr ''basiq_id updated successfully for user ID 1'')
   \<and> basiq_id_of (fst (register_basiq_id demo_sqlite demo_provider demo_two 1)) 1
       = Some (PStr ''basiq-1'')
   \<and> basiq_id_of (fst (register_basiq_id demo_sqlite demo_provider demo_two 1)) 2
       = Some PNone
   \<and> snd (snd (register_basiq_id demo_sqlite demo_provider demo_two 5)) = Inr no_user_found
   \<and> fst (register_basiq_id demo_sqlite demo_provider demo_two 5) = demo_two"
proof -
  have u: "users demo_db = Some [demo_user]" by (simp add: demo_db_def)
  have m: "max (users_seq demo_db) (max_u_id [demo_user]) = 1"
    by (simp add: demo_db_def demo_user_def max_u_id_def)
  have bs: "\<forall>n s. bind_parameter n (PStr s) = Inr (PStr s)" by simp
  have b1: "basiq_id_of demo_two 1 = Some PNone"
    by (simp add: basiq_id_of_def demo_two_def demo_user_def demo_second_user_def table_rows_def)
  have b2: "basiq_id_of demo_two 2 = Some PNone"
    by (simp add: basiq_id_of_def demo_two_def demo_user_def demo_second_user_def table_rows_def)
  have o: "\<forall>u. Cache_transactions 1 [demo_row] \<noteq> Register_basiq_id u" by simp
  have s5: "str_int 5 = ''5''" and s1: "str_int 1 = ''1''" by code_simp+
  have resp: "and_then (create_user_by_dict demo_provider (get_user_info demo_two 1)
                 (access_token demo_provider)) (\<lambda>resp. py_get resp ''id'')
              = Inr (PStr ''basiq-1'')"
    by (simp add: demo_provider_def and_then_def)
  have r1: "snd (snd (register_basiq_id demo_sqlite demo_provider demo_two 1))
       = Inr (PStr (''basiq_id updated successfully for user ID '' @ str_int 1))"
    by (simp add: register_basiq_id_def demo_provider_def demo_two_def demo_user_def
          demo_second_user_def and_then_def)
  have r5: "snd (snd (register_basiq_id demo_sqlite demo_provider demo_two 5))
              = Inr no_user_found"
    by (simp add: register_basiq_id_def demo_provider_def demo_two_def demo_user_def
          demo_second_user_def and_then_def)
  have r5': "snd (snd (register_basiq_id demo_sqlite demo_provider demo_two 5))
         \<noteq> Inr (PStr (''basiq_id updated successfully for user ID '' @ str_int 5))"
    by (simp add: r5 no_user_found_def)
  have h1: "users demo_db = Some [demo_user]
            \<and> max (users_seq demo_db) (max_u_id [demo_user]) < 9223372036854775807
            \<and> bind_parameter 1 (PStr ''c@x.com'') = Inr (PStr ''c@x.com'')
            \<and> bind_parameter 2 (PStr ''111'') = Inr (PStr ''111'')
            \<and> bind_parameter 3 (PStr ''C'') = Inr (PStr ''C'')
            \<and> bind_parameter 4 (PStr []) = Inr (PStr [])
            \<and> bind_parameter 5 (PStr ''D'') = Inr (PStr ''D'')
            \<and> bind_parameter 6 (PStr ''k'') = Inr (PStr ''k'')"
    using u m by simp
  note reg = basiq_id_lifecycle [where d = demo_db and eng = demo_sqlite
      and e = "PStr ''c@x.com''" and m = "PStr ''111''" and f = "PStr ''C''"
      and mi = "PStr []" and l = "PStr ''D''" and pw = "PStr ''k''"]
  note two = basiq_id_lifecycle [where d = demo_two and eng = demo_sqlite
      and operation = "Cache_transactions 1 [demo_row]" and p = demo_provider
      and user_id = 1 and u = 1]
  note other = basiq_id_lifecycle [where d = demo_two and eng = demo_sqlite
      and p = demo_provider and user_id = 2 and u = 1]
  note absent = basiq_id_lifecycle [where d = demo_two and eng = demo_sqlite
      and p = demo_provider and u = 5]
  from reg [THEN conjunct1, rule_format, OF h1] m have 1:
    "users (fst (register_user demo_sqlite demo_db (PStr ''c@x.com'') (PStr ''111'')
                    (PStr ''C'') (PStr []) (PStr ''D'') (PStr ''k'')))
       = Some [demo_user, demo_second_user]"
    by (simp add: demo_second_user_def)
  from two [THEN conjunct2, THEN conjunct1, THEN mp, OF o] b1 have 2:
    "basiq_id_of (run demo_sqlite demo_provider (Cache_transactions 1 [demo_row]) demo_two) 1
       = Some PNone"
    by auto
  from two [THEN conjunct2, THEN conjunct2, THEN conjunct2, THEN conjunct2, THEN mp, OF r1]
  obtain new_basiq_id b where
    "and_then (create_user_by_dict demo_provider (get_user_info demo_two 1)
        (access_token demo_provider)) (\<lambda>resp. py_get resp ''id'') = Inr new_basiq_id"
    and "bind_parameter 1 new_basiq_id = Inr b"
    and own: "basiq_id_of (fst (register_basiq_id demo_sqlite demo_provider demo_two 1)) 1
               = Some (column_value demo_sqlite Text_affinity b)"
    by blast
  with resp have "b = PStr ''basiq-1''" by auto
  with own have 3:
    "basiq_id_of (fst (register_basiq_id demo_sqlite demo_provider demo_two 1)) 1
       = Some (PStr ''basiq-1'')" by simp
  have "(2::int) \<noteq> 1" by simp
  from other [THEN conjunct2, THEN conjunct2, THEN conjunct1, THEN mp, OF this] b2 have 4:
    "basiq_id_of (fst (register_basiq_id demo_sqlite demo_provider demo_two 1)) 2
       = Some PNone" by simp
  from absent [THEN conjunct2, THEN conjunct2, THEN conjunct2, THEN conjunct1, THEN mp, OF r5']
  have 5: "fst (register_basiq_id demo_sqlite demo_provider demo_two 5) = demo_two" .
  from h1 bs b1 b2 r1 r5 1 2 3 4 5 s1 show ?thesis by simp
qed

subsection \<open>Reading users\<close>

text \<open>
  C8. With the \<^verbatim>\<open>users\<close> table in place, \<^verbatim>\<open>get_user_info\<close> on a user id without a
  row returns the message \<^verbatim>\<open>No user found with the given ID.\<close>, which is none of the
  messages the \<^verbatim>\<open>sqlite3.Error\<close> branch builds; on a user id with a row it returns
  exactly the five entries \<^verbatim>\<open>email\<close>, \<^verbatim>\<open>mobile\<close>, \<^verbatim>\<open>firstName\<close>,
  \<^verbatim>\<open>middleName\<close>, \<^verbatim>\<open>lastName\<close> of that row; in neither case does it report a
  storage error.
\<close>

theorem get_user_info_not_found_distinct:
  assumes "users d = Some us"
  shows "(find (\<lambda>u. u_id u = user_id) us = None \<longrightarrow>
            get_user_info d user_id = no_user_found)
       \<and> (\<forall>r. find (\<lambda>u. u_id u = user_id) us = Some r \<longrightarrow>
            get_user_info d user_id =
              PDict [(''email'', email r), (''mobile'', mobile r),
                     (''firstName'', first_name r), (''middleName'', middle_name r),
                     (''lastName'', last_name r)])
       \<and> (\<forall>e. get_user_info d user_id \<noteq> error_occurred e)
       \<and> (\<forall>e. no_user_found \<noteq> error_occurred e)"
  using assms
  by (auto simp: get_user_info_def no_user_found_def error_occurred_def split: option.splits)

theorem get_user_info_not_found_distinct_witness:
  "users demo_db = Some [demo_user]
   \<and> find (\<lambda>u. u_id u = 2) [demo_user] = None
   \<and> get_user_info demo_db 2 = no_user_found
   \<and> find (\<lambda>u. u_id u = 1) [demo_user] = Some demo_user
   \<and> get_user_info demo_db 1 =
        PDict [(''email'', PStr ''a@x.com''), (''mobile'', PStr ''000''),
               (''firstName'', PStr ''A''), (''middleName'', PStr []),
               (''lastName'', PStr ''B'')]"
proof -
  have h: "users demo_db = Some [demo_user]" by (simp add: demo_db_def)
  have a: "find (\<lambda>u. u_id u = 2) [demo_user] = None" by (simp add: demo_user_def)
  have b: "find (\<lambda>u. u_id u = 1) [demo_user] = Some demo_user" by (simp add: demo_user_def)
  from get_user_info_not_found_distinct [OF h, of 2] a
  have 1: "get_user_info demo_db 2 = no_user_found" by blast
  from get_user_info_not_found_distinct [OF h, of 1] b
  have 2: "get_user_info demo_db 1 =
      PDict [(''email'', email demo_user), (''mobile'', mobile demo_user),
             (''firstName'', first_name demo_user), (''middleName'', middle_name demo_user),
             (''lastName'', last_name demo_user)]" by blast
  from h a b 1 2 show ?thesis by (simp add: demo_user_def)
qed

text \<open>
  C6, as the code has it. For an existing user whose \<^verbatim>\<open>basiq_id\<close> is still
  \<^verbatim>\<open>NULL\<close>, \<^verbatim>\<open>get_basiq_id\<close> returns the column as it is, \<^verbatim>\<open>None\<close>: not the
  not-found message and not a storage error. The not-found message is what it returns for a
  user id without a row.
\<close>

theorem get_basiq_id_returns_column:
  assumes "users d = Some us"
  shows "(\<forall>r. find (\<lambda>u. u_id u = user_id) us = Some r \<and> basiq_id r = PNone \<longrightarrow>
            get_basiq_id d user_id = PNone
            \<and> get_basiq_id d user_id \<noteq> no_user_found
            \<and> (\<forall>e. get_basiq_id d user_id \<noteq> error_occurred e))
       \<and> (find (\<lambda>u. u_id u = user_id) us = None \<longrightarrow> get_basiq_id d user_id = no_user_found)"
  using assms
  by (auto simp: get_basiq_id_def no_user_found_def error_occurred_def split: option.splits)

theorem get_basiq_id_returns_column_witness:
  "users demo_db = Some [demo_user]
   \<and> find (\<lambda>u. u_id u = 1) [demo_user] = Some demo_user \<and> basiq_id demo_user = PNone
   \<and> get_basiq_id demo_db 1 = PNone
   \<and> find (\<lambda>u. u_id u = 2) [demo_user] = None
   \<and> get_basiq_id demo_db 2 = no_user_found"
proof -
  have h: "users demo_db = Some [demo_user]" by (simp add: demo_db_def)
  have a: "find (\<lambda>u. u_id u = 1) [demo_user] = Some demo_user \<and> basiq_id demo_user = PNone"
    by (simp add: demo_user_def)
  have b: "find (\<lambda>u. u_id u = 2) [demo_user] = None" by (simp add: demo_user_def)
  from get_basiq_id_returns_column [OF h, of 1] a
  have 1: "get_basiq_id demo_db 1 = PNone" by blast
  from get_basiq_id_returns_column [OF h, of 2] b
  have 2: "get_basiq_id demo_db 2 = no_user_found" by blast
  from h a b 1 2 show ?thesis by simp
qed

text \<open>C6 as stated fails: the registered, unlinked user of the scenario gets \<^verbatim>\<open>None\<close>,
  not the not-found message.\<close>

theorem get_basiq_id_null_counterexample:
  "users demo_db = Some [demo_user] \<and> u_id demo_user = 1 \<and> basiq_id demo_user = PNone
   \<and> get_basiq_id demo_db 1 = PNone \<and> get_basiq_id demo_db 1 \<noteq> no_user_found"
  by (simp add: get_basiq_id_def demo_db_def demo_user_def no_user_found_def)

subsection \<open>Calls of the provider\<close>

text \<open>
  C2, as the code has it. For a user whose \<^verbatim>\<open>basiq_id\<close> is \<^verbatim>\<open>NULL\<close>,
  \<^verbatim>\<open>request_transactions_df\<close> does not stop: it calls the transaction-list capability
  of the provider exactly once, with \<^verbatim>\<open>None\<close> as the account, and its outcome is the
  flattened response of that call.
\<close>

theorem request_transactions_df_calls_provider:
  assumes "users d = Some us"
      and "find (\<lambda>u. u_id u = user_id) us = Some r"
      and "basiq_id r = PNone"
  shows "request_transactions_df p d user_id limit_para filter_para =
           ([Call_get_transaction_list PNone limit_para filter_para (access_token p)],
            and_then (get_transaction_list p PNone limit_para filter_para (access_token p))
              (\<lambda>tran_data. and_then (py_getitem tran_data ''data'')
              (\<lambda>transaction_list. and_then (py_iter transaction_list) flatten_all)))"
  using assms by (simp add: request_transactions_df_def get_basiq_id_def)

theorem request_transactions_df_calls_provider_witness:
  "users demo_db = Some [demo_user]
   \<and> find (\<lambda>u. u_id u = 1) [demo_user] = Some demo_user
   \<and> basiq_id demo_user = PNone
   \<and> fst (request_transactions_df demo_provider demo_db 1 (PInt 500) (PStr []))
       = [Call_get_transaction_list PNone (PInt 500) (PStr []) (PStr ''token'')]"
proof -
  have h: "users demo_db = Some [demo_user]" by (simp add: demo_db_def)
  have a: "find (\<lambda>u. u_id u = 1) [demo_user] = Some demo_user" by (simp add: demo_user_def)
  have b: "basiq_id demo_user = PNone" by (simp add: demo_user_def)
  have t: "access_token demo_provider = PStr ''token''" by (simp add: demo_provider_def)
  from request_transactions_df_calls_provider [OF h a b, of demo_provider "PInt 500" "PStr []"] t
  have "fst (request_transactions_df demo_provider demo_db 1 (PInt 500) (PStr []))
       = [Call_get_transaction_list PNone (PInt 500) (PStr []) (PStr ''token'')]" by simp
  with h a b show ?thesis by simp
qed

text \<open>C2 as stated fails: for the unlinked user of the scenario the provider is called,
  and the function returns an empty data frame.\<close>

theorem request_transactions_df_unlinked_counterexample:
  "users demo_db = Some [demo_user] \<and> u_id demo_user = 1 \<and> basiq_id demo_user = PNone
   \<and> request_transactions_df demo_provider demo_db 1 (PInt 500) (PStr [])
       = ([Call_get_transaction_list PNone (PInt 500) (PStr []) (PStr ''token'')], Inr [])"
  by (simp add: request_transactions_df_def get_basiq_id_def demo_db_def demo_user_def
                demo_provider_def and_then_def)

text \<open>
  C9, as the code has it. \<^verbatim>\<open>link_bank_account\<close> never changes the database, whatever
  its outcome. For a user whose \<^verbatim>\<open>basiq_id\<close> is \<^verbatim>\<open>NULL\<close> it does not stop: its
  first effect is the call of the auth-link capability with \<^verbatim>\<open>None\<close>.
\<close>

theorem link_bank_account_reads_only:
  "fst (link_bank_account p d user_id) = d
   \<and> (\<forall>us r. users d = Some us \<and> find (\<lambda>u. u_id u = user_id) us = Some r
              \<and> basiq_id r = PNone \<longrightarrow>
        (\<exists>rest. fst (snd (link_bank_account p d user_id))
                  = Call_create_auth_link PNone (access_token p) # rest))"
  by (auto simp: link_bank_account_def Let_def split: option.splits sum.splits)

theorem link_bank_account_reads_only_witness:
  "users demo_db = Some [demo_user]
   \<and> find (\<lambda>u. u_id u = 1) [demo_user] = Some demo_user
   \<and> basiq_id demo_user = PNone
   \<and> fst (link_bank_account demo_provider demo_db 1) = demo_db
   \<and> (\<exists>rest. fst (snd (link_bank_account demo_provider demo_db 1))
                = Call_create_auth_link PNone (PStr ''token'') # rest)"
proof -
  have h: "users demo_db = Some [demo_user]" by (simp add: demo_db_def)
  have a: "find (\<lambda>u. u_id u = 1) [demo_user] = Some demo_user" by (simp add: demo_user_def)
  have b: "basiq_id demo_user = PNone" by (simp add: demo_user_def)
  have t: "access_token demo_provider = PStr ''token''" by (simp add: demo_provider_def)
  note inst = link_bank_account_reads_only [of demo_provider demo_db 1]
  from inst have 1: "fst (link_bank_account demo_provider demo_db 1) = demo_db" by blast
  from inst h a b have "\<exists>rest. fst (snd (link_bank_account demo_provider demo_db 1))
                = Call_create_auth_link PNone (access_token demo_provider) # rest" by blast
  with t have 2: "\<exists>rest. fst (snd (link_bank_account demo_provider demo_db 1))
                = Call_create_auth_link PNone (PStr ''token'') # rest" by simp
  from h a b 1 2 show ?thesis by simp
qed

text \<open>C9 as stated fails: for the unlinked user of the scenario the provider is called,
  the browser is opened and the function returns normally.\<close>

theorem link_bank_account_unlinked_counterexample:
  "users demo_db = Some [demo_user] \<and> u_id demo_user = 1 \<and> basiq_id demo_user = PNone
   \<and> link_bank_account demo_provider demo_db 1
       = (demo_db,
          [Call_create_auth_link PNone (PStr ''token''),
           Webbrowser_open (PStr ''https://connect.example/1'')],
          Inr PNone)"
  by (simp add: link_bank_account_def demo_db_def demo_user_def demo_provider_def and_then_def)

subsection \<open>Clearing the cache\<close>

text \<open>
  C10. \<^verbatim>\<open>clear_transactions\<close> leaves the \<^verbatim>\<open>users\<close> table, with every
  \<^verbatim>\<open>basiq_id\<close>, and its counter as they were, and leaves the \<^verbatim>\<open>transactions\<close> table
  without any row, whoever owned the rows.
\<close>

theorem clear_transactions_frame:
  "users (fst (clear_transactions d)) = users d
   \<and> users_seq (fst (clear_transactions d)) = users_seq d
   \<and> transactions (fst (clear_transactions d))
       = (case transactions d of None \<Rightarrow> None | Some ts \<Rightarrow> Some [])"
  by (simp add: clear_transactions_def split: option.splits)

end
